theory Spec2Isabelle
  imports Main "HOL-Library.Word" "HOL-Library.List_Lexorder" "HOL-Library.Multiset"
begin

section \<open>Strings and small helpers of the JavaScript runtime\<close>

text \<open>
  A JavaScript string is a sequence of UTF-16 code units; \<open>length\<close>, \<open>substring\<close>
  and the default \<open>sort\<close> all work on code units. A string is therefore modelled as a
  list of 16-bit words, and the lexicographic order of such lists is the order the
  default \<open>Array.prototype.sort\<close> uses for strings.
\<close>

type_synonym code_unit = "16 word"
type_synonym jsstring = "code_unit list"

definition js :: "string \<Rightarrow> jsstring" where
  \<comment> \<open>An ASCII literal of the source, as code units.\<close>
  "js s = map (\<lambda>c. of_nat (of_char c)) s"

definition digit_unit :: "nat \<Rightarrow> code_unit" where
  "digit_unit d = of_nat (48 + d)"

fun show_nat :: "nat \<Rightarrow> jsstring" where
  \<comment> \<open>\<open>String(n)\<close> for a non-negative integer below \<open>10^21\<close>: its decimal digits.\<close>
  "show_nat n = (if n < 10 then [digit_unit n] else show_nat (n div 10) @ [digit_unit (n mod 10)])"

declare show_nat.simps [simp del]

fun join :: "jsstring \<Rightarrow> jsstring list \<Rightarrow> jsstring" where
  \<comment> \<open>\<open>Array.prototype.join\<close> on an array of strings.\<close>
  "join sep [] = []"
| "join sep [x] = x"
| "join sep (x # y # ys) = x @ sep @ join sep (y # ys)"

section \<open>constants.ts\<close>

definition CHARACTER_LIMIT :: nat where
  "CHARACTER_LIMIT = 25000"

datatype ResponseFormat = JSON | MARKDOWN

section \<open>types.ts\<close>

record TruncationMeta =
  truncated :: bool
  truncation_message :: "jsstring option"
  original_length :: "nat option"

section \<open>formatter.ts: truncation\<close>

definition truncationMessage :: "ResponseFormat \<Rightarrow> jsstring" where
  "truncationMessage format =
     (if format = MARKDOWN
      then js ''\<newline>\<newline>---\<newline>\<newline>**Note:** Response was truncated due to size limit ('' @
           show_nat CHARACTER_LIMIT @ js '' characters). '' @
           js ''To see more data, try:\<newline>'' @
           js ''- Narrowing the date range\<newline>'' @
           js ''- Filtering with the 'symbols' parameter\<newline>'' @
           js ''- Using pagination parameters\<newline>''
      else js ''\<newline>\<newline>[TRUNCATED: Response exceeded character limit]'')"

definition truncateIfNeeded :: "jsstring \<Rightarrow> ResponseFormat \<Rightarrow> jsstring \<times> TruncationMeta" where
  "truncateIfNeeded content format =
     (if length content \<le> CHARACTER_LIMIT
      then (content, \<lparr>truncated = False, truncation_message = None, original_length = None\<rparr>)
      else (take CHARACTER_LIMIT content @ truncationMessage format,
            \<lparr>truncated = True,
             truncation_message = Some (js ''Response exceeded character limit and was truncated''),
             original_length = Some (length content)\<rparr>))"

section \<open>Numbers and values of the runtime\<close>

text \<open>
  A JavaScript number is an IEEE 754 double. Only \<open>NaN\<close> is distinguished here; the
  other doubles (finite or infinite) are the values of a type parameter \<open>'f\<close>, and the
  built-in operations on them that the program calls are the fields of a record that
  every function of the model takes as its first argument. \<open>String.prototype.toUpperCase\<close>
  and \<open>String.prototype.localeCompare\<close> (whose Unicode tables and collation are part
  of the engine) and the time zone of the process are fields of the same record.
\<close>

datatype 'f number = NaN | Num 'f

record 'f runtime =
  rt_toUpperCase :: "jsstring \<Rightarrow> jsstring"
  rt_multiply :: "'f \<Rightarrow> 'f \<Rightarrow> 'f number"
  rt_isFinite :: "'f \<Rightarrow> bool"
  rt_positive :: "'f \<Rightarrow> bool"
  rt_toString :: "'f \<Rightarrow> jsstring"
  rt_toFixed :: "nat \<Rightarrow> 'f \<Rightarrow> jsstring"
  rt_localeCompare :: "jsstring \<Rightarrow> jsstring \<Rightarrow> int"
  rt_LocalTZA :: "int \<Rightarrow> int"
  \<comment> \<open>The offset of the local time zone, in milliseconds, at a local time value.\<close>

fun multiply :: "'f runtime \<Rightarrow> 'f number \<Rightarrow> 'f number \<Rightarrow> 'f number" where
  \<comment> \<open>The operator \<open>*\<close>: \<open>NaN\<close> when an operand is \<open>NaN\<close>.\<close>
  "multiply rt (Num a) (Num b) = rt_multiply rt a b"
| "multiply rt _ _ = NaN"

fun number_toFixed :: "'f runtime \<Rightarrow> nat \<Rightarrow> 'f number \<Rightarrow> jsstring" where
  \<comment> \<open>\<open>Number.prototype.toFixed\<close>: \<open>NaN\<close> prints as its name.\<close>
  "number_toFixed rt d NaN = js ''NaN''"
| "number_toFixed rt d (Num a) = rt_toFixed rt d a"

datatype 'f jsvalue =
    Undefined
  | Null
  | Bool bool
  | Number "'f number"
  | String jsstring
  | Array "'f jsvalue list"
  | Object "(jsstring \<times> 'f jsvalue) list"
  \<comment> \<open>The own enumerable properties of a plain object, in the order the engine
      enumerates them. What a plain object inherits is the same for all of them: the
      properties of \<open>Object.prototype\<close>, named below.\<close>

definition Object_prototype_names :: "jsstring list" where
  \<comment> \<open>The names of the properties of \<open>Object.prototype\<close> in Node.js (V8). Each is a
      function, except \<open>__proto__\<close>, an accessor that gives \<open>Object.prototype\<close> itself;
      none of the values has a property \<open>toFixed\<close>.\<close>
  "Object_prototype_names =
     map js [''constructor'', ''__defineGetter__'', ''__defineSetter__'', ''hasOwnProperty'',
             ''__lookupGetter__'', ''__lookupSetter__'', ''isPrototypeOf'',
             ''propertyIsEnumerable'', ''toString'', ''valueOf'', ''__proto__'',
             ''toLocaleString'']"

fun ToNumber :: "'f number option \<Rightarrow> 'f number" where
  \<comment> \<open>Of a value that is a number or \<open>undefined\<close> (\<open>None\<close>).\<close>
  "ToNumber None = NaN"
| "ToNumber (Some n) = n"

section \<open>JSON.stringify with an indentation of two spaces\<close>

definition hex_digit :: "nat \<Rightarrow> code_unit" where
  \<comment> \<open>A lower-case hexadecimal digit.\<close>
  "hex_digit d = (if d < 10 then of_nat (48 + d) else of_nat (87 + d))"

definition UnicodeEscape :: "code_unit \<Rightarrow> jsstring" where
  "UnicodeEscape c =
     [0x5C, 0x75] @ [hex_digit (unat c div 4096), hex_digit (unat c div 256 mod 16),
                  hex_digit (unat c div 16 mod 16), hex_digit (unat c mod 16)]"

definition is_high_surrogate :: "code_unit \<Rightarrow> bool" where
  "is_high_surrogate c = (0xD800 \<le> c \<and> c \<le> 0xDBFF)"

definition is_low_surrogate :: "code_unit \<Rightarrow> bool" where
  "is_low_surrogate c = (0xDC00 \<le> c \<and> c \<le> 0xDFFF)"

definition quote_unit :: "code_unit \<Rightarrow> jsstring" where
  \<comment> \<open>The rendering of a code unit that is not a surrogate: a backslash (\<open>0x5C\<close>)
      and a letter for the short escapes, the quotation mark (\<open>0x22\<close>) and the
      backslash itself; four hexadecimal digits for the other control characters.\<close>
  "quote_unit c =
     (if c = 0x08 then [0x5C, 0x62]
      else if c = 0x09 then [0x5C, 0x74]
      else if c = 0x0A then [0x5C, 0x6E]
      else if c = 0x0C then [0x5C, 0x66]
      else if c = 0x0D then [0x5C, 0x72]
      else if c = 0x22 then [0x5C, 0x22]
      else if c = 0x5C then [0x5C, 0x5C]
      else if c < 0x20 then UnicodeEscape c
      else [c])"

fun quote_units :: "jsstring \<Rightarrow> jsstring" where
  \<comment> \<open>The string is read by code points: a high surrogate followed by a low one is a
      pair and is copied, any other surrogate is escaped.\<close>
  "quote_units [] = []"
| "quote_units [c] =
     (if is_high_surrogate c \<or> is_low_surrogate c then UnicodeEscape c else quote_unit c)"
| "quote_units (c # d # cs) =
     (if is_high_surrogate c \<and> is_low_surrogate d then c # d # quote_units cs
      else if is_high_surrogate c \<or> is_low_surrogate c then UnicodeEscape c @ quote_units (d # cs)
      else quote_unit c @ quote_units (d # cs))"

definition QuoteJSONString :: "jsstring \<Rightarrow> jsstring" where
  "QuoteJSONString s = [0x22] @ quote_units s @ [0x22]"

definition gap :: jsstring where
  "gap = js ''  ''"

definition wrap_block :: "code_unit \<Rightarrow> code_unit \<Rightarrow> jsstring \<Rightarrow> jsstring list \<Rightarrow> jsstring" where
  \<comment> \<open>The text of an object (braces) or an array (brackets) from the texts of its
      members; \<open>stepback\<close> is the indentation of the enclosing level.\<close>
  "wrap_block opening closing stepback partial =
     (if partial = [] then [opening, closing]
      else [opening, 0x0A] @ (stepback @ gap) @
           join (js '','' @ [0x0A] @ (stepback @ gap)) partial @
           [0x0A] @ stepback @ [closing])"

fun SerializeJSONProperty :: "'f runtime \<Rightarrow> jsstring \<Rightarrow> 'f jsvalue \<Rightarrow> jsstring option"
  and SerializeJSONElements :: "'f runtime \<Rightarrow> jsstring \<Rightarrow> 'f jsvalue list \<Rightarrow> jsstring list"
  and SerializeJSONMembers :: "'f runtime \<Rightarrow> jsstring \<Rightarrow> (jsstring \<times> 'f jsvalue) list \<Rightarrow> jsstring list"
where
  "SerializeJSONProperty rt indent Undefined = None"
| "SerializeJSONProperty rt indent Null = Some (js ''null'')"
| "SerializeJSONProperty rt indent (Bool b) = Some (if b then js ''true'' else js ''false'')"
| "SerializeJSONProperty rt indent (Number NaN) = Some (js ''null'')"
| "SerializeJSONProperty rt indent (Number (Num a)) =
     Some (if rt_isFinite rt a then rt_toString rt a else js ''null'')"
| "SerializeJSONProperty rt indent (String s) = Some (QuoteJSONString s)"
| "SerializeJSONProperty rt indent (Array xs) =
     Some (wrap_block 0x5B 0x5D indent (SerializeJSONElements rt (indent @ gap) xs))"
| "SerializeJSONProperty rt indent (Object kvs) =
     Some (wrap_block 0x7B 0x7D indent (SerializeJSONMembers rt (indent @ gap) kvs))"
| "SerializeJSONElements rt indent [] = []"
| "SerializeJSONElements rt indent (x # xs) =
     (case SerializeJSONProperty rt indent x of
        None \<Rightarrow> js ''null''
      | Some str \<Rightarrow> str) # SerializeJSONElements rt indent xs"
| "SerializeJSONMembers rt indent [] = []"
| "SerializeJSONMembers rt indent ((k, v) # kvs) =
     (case SerializeJSONProperty rt indent v of
        None \<Rightarrow> SerializeJSONMembers rt indent kvs
      | Some str \<Rightarrow> (QuoteJSONString k @ js '': '' @ str) # SerializeJSONMembers rt indent kvs)"

section \<open>formatter.ts: rendering\<close>

definition formatAsJSON :: "'f runtime \<Rightarrow> 'f jsvalue \<Rightarrow> jsstring option" where
  \<comment> \<open>\<open>JSON.stringify(data, null, 2)\<close>; \<open>None\<close> is the result \<open>undefined\<close>.\<close>
  "formatAsJSON rt data = SerializeJSONProperty rt [] data"

datatype thrown =
    ZodError "(jsstring \<times> jsstring) list"
    \<comment> \<open>The issues of a failed schema check: the path, joined with dots, and the message.\<close>
  | Error jsstring
    \<comment> \<open>An instance of \<open>Error\<close> (a \<open>TypeError\<close> of the engine included) and its message.\<close>
  | Thrown jsstring
    \<comment> \<open>A thrown value that is not an \<open>Error\<close>, given by its conversion to a string.\<close>

definition TypeError_reading :: "jsstring \<Rightarrow> thrown" where
  \<comment> \<open>Reading a property of \<open>undefined\<close>; the message is the one of Node.js (V8), with
      the property name between apostrophes (\<open>0x27\<close>).\<close>
  "TypeError_reading prop =
     Error (js ''Cannot read properties of undefined (reading '' @ [0x27] @ prop @ [0x27] @ js '')'')"

definition TypeError_not_a_function :: "jsstring \<Rightarrow> thrown" where
  \<comment> \<open>Calling a value that is not a function; the message is the one of Node.js (V8),
      which names the expression that was called.\<close>
  "TypeError_not_a_function callee = Error (callee @ js '' is not a function'')"

definition rates_row :: "'f runtime \<Rightarrow> jsstring \<times> 'f number \<Rightarrow> jsstring" where
  "rates_row rt entry =
     js ''| '' @ fst entry @ js '' | '' @ number_toFixed rt 4 (snd entry) @ js '' |\<newline>''"

definition formatRatesAsMarkdown ::
  "'f runtime \<Rightarrow> (jsstring \<times> 'f number) list \<Rightarrow> jsstring \<Rightarrow> jsstring \<Rightarrow> jsstring" where
  "formatRatesAsMarkdown rt rates base date =
     foldl (\<lambda>markdown entry. markdown @ rates_row rt entry)
       (js ''## Exchange Rates for '' @ base @ js ''\<newline>\<newline>'' @
        js ''**Date:** '' @ date @ js ''\<newline>\<newline>'' @
        js ''| Currency | Rate |\<newline>'' @
        js ''|----------|------|\<newline>'')
       rates"

definition series_cell ::
  "'f runtime \<Rightarrow> (jsstring \<times> 'f number) list \<Rightarrow> jsstring \<Rightarrow> thrown + jsstring" where
  \<comment> \<open>The body of the \<open>symbols.map\<close> callback. \<open>dateRates[symbol]\<close> is the own property
      of that name or else the inherited one, which is not \<open>undefined\<close> and has no
      \<open>toFixed\<close> to call.\<close>
  "series_cell rt dateRates symbol =
     (case map_of dateRates symbol of
        Some rate \<Rightarrow> Inr (number_toFixed rt 4 rate)
      | None \<Rightarrow>
          if symbol \<in> set Object_prototype_names
          then Inl (TypeError_not_a_function (js ''rate.toFixed''))
          else Inr (js ''N/A''))"

fun series_cells ::
  "'f runtime \<Rightarrow> (jsstring \<times> 'f number) list \<Rightarrow> jsstring list \<Rightarrow> thrown + jsstring list" where
  \<comment> \<open>\<open>symbols.map\<close> with that callback: the first exception ends it.\<close>
  "series_cells rt dateRates [] = Inr []"
| "series_cells rt dateRates (symbol # symbols) =
     (case series_cell rt dateRates symbol of
        Inl e \<Rightarrow> Inl e
      | Inr cell \<Rightarrow>
          (case series_cells rt dateRates symbols of
             Inl e \<Rightarrow> Inl e
           | Inr cells \<Rightarrow> Inr (cell # cells)))"

definition series_header :: "jsstring \<Rightarrow> jsstring list \<Rightarrow> jsstring" where
  "series_header base symbols =
     js ''## Time Series Exchange Rates for '' @ base @ js ''\<newline>\<newline>'' @
     js ''**Symbols:** '' @ join (js '', '') symbols @ js ''\<newline>\<newline>'' @
     js ''| Date | '' @ join (js '' | '') symbols @ js '' |\<newline>'' @
     js ''|------|'' @ join (js ''|'') (map (\<lambda>_. js ''------'') symbols) @ js ''|\<newline>''"

definition series_row ::
  "'f runtime \<Rightarrow> (jsstring \<times> (jsstring \<times> 'f number) list) list \<Rightarrow> jsstring list \<Rightarrow>
   jsstring \<Rightarrow> thrown + jsstring" where
  \<comment> \<open>The text one iteration of the loop appends. \<open>rates[date]\<close> is an own property for
      every key of \<open>rates\<close>; were it \<open>undefined\<close>, reading the first symbol of it would
      throw (with no symbol nothing is read).\<close>
  "series_row rt rates symbols date =
     (case map_of rates date of
        None \<Rightarrow>
          (case symbols of
             [] \<Rightarrow> Inr (js ''| '' @ date @ js '' | '' @ js '' |\<newline>'')
           | symbol # _ \<Rightarrow> Inl (TypeError_reading symbol))
      | Some dateRates \<Rightarrow>
          (case series_cells rt dateRates symbols of
             Inl e \<Rightarrow> Inl e
           | Inr cells \<Rightarrow>
               Inr (js ''| '' @ date @ js '' | '' @ join (js '' | '') cells @ js '' |\<newline>'')))"

fun series_loop ::
  "'f runtime \<Rightarrow> (jsstring \<times> (jsstring \<times> 'f number) list) list \<Rightarrow> jsstring list \<Rightarrow>
   jsstring \<Rightarrow> jsstring list \<Rightarrow> thrown + jsstring" where
  "series_loop rt rates symbols markdown [] = Inr markdown"
| "series_loop rt rates symbols markdown (date # dates) =
     (case series_row rt rates symbols date of
        Inl e \<Rightarrow> Inl e
      | Inr row \<Rightarrow> series_loop rt rates symbols (markdown @ row) dates)"

definition formatTimeSeriesAsMarkdown ::
  "'f runtime \<Rightarrow> (jsstring \<times> (jsstring \<times> 'f number) list) list \<Rightarrow> jsstring \<Rightarrow>
   jsstring list \<Rightarrow> thrown + jsstring" where
  "formatTimeSeriesAsMarkdown rt rates base symbols =
     series_loop rt rates symbols (series_header base symbols) (sort (map fst rates))"

definition formatConversionAsMarkdown ::
  "'f runtime \<Rightarrow> jsstring \<Rightarrow> jsstring \<Rightarrow> 'f number \<Rightarrow> 'f number option \<Rightarrow> 'f number \<Rightarrow>
   jsstring \<Rightarrow> thrown + jsstring" where
  \<comment> \<open>The parameter \<open>rate\<close> is declared a number; the caller can pass \<open>undefined\<close>
      (\<open>None\<close>), and calling \<open>toFixed\<close> on it throws, after the two other numbers
      have been formatted.\<close>
  "formatConversionAsMarkdown rt from to amount rate result date =
     (case rate of
        None \<Rightarrow> Inl (TypeError_reading (js ''toFixed''))
      | Some r \<Rightarrow>
          Inr (js ''## Currency Conversion\<newline>\<newline>'' @
               js ''**'' @ number_toFixed rt 2 amount @ js '' '' @ from @ js '' = '' @
                 number_toFixed rt 2 result @ js '' '' @ to @ js ''**\<newline>\<newline>'' @
               js ''- Exchange Rate: '' @ number_toFixed rt 4 r @ js ''\<newline>'' @
               js ''- Date: '' @ date @ js ''\<newline>''))"

fun insert_by :: "('a \<Rightarrow> 'a \<Rightarrow> int) \<Rightarrow> 'a \<Rightarrow> 'a list \<Rightarrow> 'a list" where
  "insert_by cmp x [] = [x]"
| "insert_by cmp x (y # ys) = (if cmp x y \<le> 0 then x # y # ys else y # insert_by cmp x ys)"

definition sort_by :: "('a \<Rightarrow> 'a \<Rightarrow> int) \<Rightarrow> 'a list \<Rightarrow> 'a list" where
  \<comment> \<open>\<open>Array.prototype.sort\<close> with a comparison function: a stable sort, written as
      the insertion sort that gives the same array for a consistent comparison. The
      elements are inserted from the last to the first, each before the elements that
      compare equal to it, so elements that compare equal keep their order.\<close>
  "sort_by cmp xs = foldr (insert_by cmp) xs []"

definition currencies_row :: "jsstring \<times> jsstring \<Rightarrow> jsstring" where
  "currencies_row entry = js ''| '' @ fst entry @ js '' | '' @ snd entry @ js '' |\<newline>''"

definition formatCurrenciesAsMarkdown ::
  "'f runtime \<Rightarrow> (jsstring \<times> jsstring) list \<Rightarrow> jsstring" where
  "formatCurrenciesAsMarkdown rt currencies =
     (let entries = sort_by (\<lambda>a b. rt_localeCompare rt (fst a) (fst b)) currencies
      in foldl (\<lambda>markdown entry. markdown @ currencies_row entry)
           (js ''## Available Currencies\<newline>\<newline>'' @
            js ''| Code | Name |\<newline>'' @
            js ''|------|------|\<newline>'')
           entries @
         js ''\<newline>**Total:** '' @ show_nat (length entries) @ js '' currencies\<newline>'')"

definition formatResponse ::
  "'f runtime \<Rightarrow> 'f jsvalue \<Rightarrow> ResponseFormat \<Rightarrow> ('f jsvalue \<Rightarrow> jsstring option) option \<Rightarrow>
   thrown + jsstring" where
  \<comment> \<open>When the rendering is \<open>undefined\<close>, reading its length throws.\<close>
  "formatResponse rt data format formatter =
     (let content =
            (if format = JSON then formatAsJSON rt data
             else (case formatter of
                     Some f \<Rightarrow> f data
                   | None \<Rightarrow> formatAsJSON rt data))
      in case content of
           None \<Rightarrow> Inl (TypeError_reading (js ''length''))
         | Some str \<Rightarrow> Inr (fst (truncateIfNeeded str format)))"

section \<open>frankfurter-client.ts\<close>

record AxiosError =
  ae_code :: "jsstring option"
  ae_response :: "(nat \<times> jsstring) option"
  \<comment> \<open>The status and the status text of the response, when one was received.\<close>
  ae_request :: bool
  \<comment> \<open>Whether the error carries the request that was sent.\<close>
  ae_message :: jsstring

definition handleApiError :: "AxiosError \<Rightarrow> thrown" where
  "handleApiError error =
     (if ae_code error = Some (js ''ECONNABORTED'')
      then Error (js ''Request timeout: The Frankfurter API did not respond within 10 seconds. Please try again.'')
      else case ae_response error of
        Some (status, statusText) \<Rightarrow>
          if status = 404
          then Error (js ''The requested resource was not found. Please check your date range and currency codes.'')
          else if status = 429
          then Error (js ''Rate limit exceeded. Please wait a moment before making more requests.'')
          else if status = 500 \<or> status = 502 \<or> status = 503
          then Error (js ''The Frankfurter API is currently experiencing issues. Please try again later.'')
          else Error (js ''API request failed with status '' @ show_nat status @ js '': '' @ statusText)
      | None \<Rightarrow>
          if ae_request error
          then Error (js ''Unable to connect to the Frankfurter API. Please check your internet connection.'')
          else Error (js ''An unexpected error occurred: '' @ ae_message error))"

record request =
  endpoint :: jsstring
  \<comment> \<open>The path that follows the base URL.\<close>
  query :: "(jsstring \<times> jsstring) list"

datatype 'f http_result =
    Data "'f jsvalue"
  | AxiosFailure AxiosError
  | OtherFailure thrown

definition api_request :: "jsstring \<Rightarrow> (jsstring \<times> (jsstring + jsstring list)) list \<Rightarrow> request" where
  \<comment> \<open>The request \<open>makeApiRequest\<close> sends: an array parameter is joined with commas.\<close>
  "api_request path params =
     \<lparr>endpoint = path,
      query = map (\<lambda>(key, v). (key, case v of Inl str \<Rightarrow> str | Inr xs \<Rightarrow> join (js '','') xs)) params\<rparr>"

definition makeApiRequest ::
  "(request \<Rightarrow> 'f http_result) \<Rightarrow> jsstring \<Rightarrow> (jsstring \<times> (jsstring + jsstring list)) list \<Rightarrow>
   thrown + 'f jsvalue" where
  \<comment> \<open>The first argument is the network: what \<open>axios.get\<close> does with a request.\<close>
  "makeApiRequest http path params =
     (case http (api_request path params) of
        Data d \<Rightarrow> Inr d
      | AxiosFailure error \<Rightarrow> Inl (handleApiError error)
      | OtherFailure error \<Rightarrow> Inl error)"

section \<open>Dates of the runtime\<close>

definition is_digit :: "code_unit \<Rightarrow> bool" where
  "is_digit c = (0x30 \<le> c \<and> c \<le> 0x39)"

definition digit_value :: "code_unit \<Rightarrow> int" where
  "digit_value c = uint c - 48"

fun matches_date_pattern :: "jsstring \<Rightarrow> bool" where
  \<comment> \<open>The regular expression \<open>/^\d{4}-\d{2}-\d{2}$/\<close>.\<close>
  "matches_date_pattern [y1, y2, y3, y4, h1, m1, m2, h2, d1, d2] =
     (is_digit y1 \<and> is_digit y2 \<and> is_digit y3 \<and> is_digit y4 \<and> h1 = 0x2D \<and>
      is_digit m1 \<and> is_digit m2 \<and> h2 = 0x2D \<and> is_digit d1 \<and> is_digit d2)"
| "matches_date_pattern _ = False"

definition msPerDay :: int where
  "msPerDay = 86400000"

definition DayFromYear :: "int \<Rightarrow> int" where
  "DayFromYear y = 365 * (y - 1970) + (y - 1969) div 4 - (y - 1901) div 100 + (y - 1601) div 400"

definition InLeapYear :: "int \<Rightarrow> bool" where
  "InLeapYear y = (y mod 4 = 0 \<and> (y mod 100 \<noteq> 0 \<or> y mod 400 = 0))"

definition days_before_month :: "int \<Rightarrow> int \<Rightarrow> int" where
  \<comment> \<open>The days of the year \<open>y\<close> that precede its month \<open>m\<close> (from 1 to 12).\<close>
  "days_before_month y m =
     [0, 31, 59, 90, 120, 151, 181, 212, 243, 273, 304, 334] ! nat (m - 1) +
     (if 2 < m \<and> InLeapYear y then 1 else 0)"

definition MakeDay :: "int \<Rightarrow> int \<Rightarrow> int \<Rightarrow> int" where
  "MakeDay y m d = DayFromYear y + days_before_month y m + d - 1"

definition Day :: "int \<Rightarrow> int" where
  \<comment> \<open>The day number of a time value.\<close>
  "Day t = t div msPerDay"

fun Date_parse :: "'f runtime \<Rightarrow> jsstring \<Rightarrow> int option" where
  \<comment> \<open>\<open>new Date(s)\<close> for a string that matches the pattern of the schemas, as Node.js
      (V8) reads it; \<open>None\<close> is an invalid date (whose time value is \<open>NaN\<close>). With a
      month from 1 to 12 and a day from 1 to 31 the string is an ISO date and the result
      is midnight UTC; a day beyond the end of the month runs into the next month.
      Otherwise the fallback parser of the engine reads the three numbers as month, day
      and two-digit year (below 50 in the century of 2000, else of 1900), when the first
      is a month and the second a day, as midnight of the local time zone.\<close>
  "Date_parse rt [y1, y2, y3, y4, h1, m1, m2, h2, d1, d2] =
     (if matches_date_pattern [y1, y2, y3, y4, h1, m1, m2, h2, d1, d2]
      then (let y = 1000 * digit_value y1 + 100 * digit_value y2 + 10 * digit_value y3 + digit_value y4;
                m = 10 * digit_value m1 + digit_value m2;
                d = 10 * digit_value d1 + digit_value d2
            in if 1 \<le> m \<and> m \<le> 12 \<and> 1 \<le> d \<and> d \<le> 31
               then Some (MakeDay y m d * msPerDay)
               else if 1 \<le> y \<and> y \<le> 12 \<and> 1 \<le> m \<and> m \<le> 31
               then (let t = MakeDay (if d \<le> 49 then 2000 + d else 1900 + d) y m * msPerDay
                     in Some (t - rt_LocalTZA rt t))
               else None)
      else None)"
| "Date_parse rt _ = None"

fun time_gt :: "int option \<Rightarrow> int option \<Rightarrow> bool" where
  \<comment> \<open>The operator \<open>>\<close> on two dates: false when a time value is \<open>NaN\<close>.\<close>
  "time_gt (Some a) (Some b) = (a > b)"
| "time_gt _ _ = False"

fun time_ge :: "int option \<Rightarrow> int option \<Rightarrow> bool" where
  "time_ge (Some a) (Some b) = (a \<ge> b)"
| "time_ge _ _ = False"

section \<open>index.ts: schemas\<close>

text \<open>
  The arguments of a call are records of the fields the schemas declare, each with the
  type the schema gives it (an absent optional field is \<open>None\<close>); a call whose
  arguments have another type or an extra field, which the strict schemas reject, is
  not a value of these types.
\<close>

record 'f ConvertArgs =
  c_from :: jsstring
  c_to :: jsstring
  c_amount :: "'f number"
  c_date :: "jsstring option"
  c_response_format :: "ResponseFormat option"

record LatestArgs =
  l_base :: "jsstring option"
  l_symbols :: "jsstring list option"
  l_response_format :: "ResponseFormat option"

record HistoricalArgs =
  h_date :: jsstring
  h_base :: "jsstring option"
  h_symbols :: "jsstring list option"
  h_response_format :: "ResponseFormat option"

record TimeSeriesArgs =
  t_start_date :: jsstring
  t_end_date :: jsstring
  t_base :: "jsstring option"
  t_symbols :: "jsstring list option"
  t_response_format :: "ResponseFormat option"

record ListArgs =
  k_response_format :: "ResponseFormat option"

datatype 'f tool_call =
    frankfurter_convert_currency "'f ConvertArgs"
  | frankfurter_get_latest_rates LatestArgs
  | frankfurter_get_historical_rates HistoricalArgs
  | frankfurter_get_time_series TimeSeriesArgs
  | frankfurter_list_currencies ListArgs
  | unknown_tool jsstring

type_synonym issue = "jsstring \<times> jsstring"

definition code_issues :: "string \<Rightarrow> jsstring \<Rightarrow> issue list" where
  "code_issues path code =
     (if length code = 3 then [] else [(js path, js ''Currency code must be 3 characters'')])"

definition optional_code_issues :: "string \<Rightarrow> jsstring option \<Rightarrow> issue list" where
  "optional_code_issues path code = (case code of None \<Rightarrow> [] | Some c \<Rightarrow> code_issues path c)"

definition symbols_issues :: "jsstring list option \<Rightarrow> issue list" where
  \<comment> \<open>The elements have no message of the source; the message is the default of zod.\<close>
  "symbols_issues symbols =
     (case symbols of
        None \<Rightarrow> []
      | Some xs \<Rightarrow>
          concat (map (\<lambda>(i, x). if length x = 3 then []
                                 else [(js ''symbols.'' @ show_nat i,
                                        js ''String must contain exactly 3 character(s)'')])
                      (enumerate 0 xs)))"

definition date_issues :: "string \<Rightarrow> string \<Rightarrow> jsstring \<Rightarrow> issue list" where
  "date_issues path message date =
     (if matches_date_pattern date then [] else [(js path, js message)])"

definition amount_issues :: "'f runtime \<Rightarrow> 'f number \<Rightarrow> issue list" where
  \<comment> \<open>\<open>z.number()\<close> rejects \<open>NaN\<close> with a message of zod.\<close>
  "amount_issues rt amount =
     (case amount of
        NaN \<Rightarrow> [(js ''amount'', js ''Expected number, received nan'')]
      | Num a \<Rightarrow> if rt_positive rt a then [] else [(js ''amount'', js ''Amount must be positive'')])"

definition ConvertCurrencySchema :: "'f runtime \<Rightarrow> 'f ConvertArgs \<Rightarrow> issue list" where
  "ConvertCurrencySchema rt args =
     code_issues ''from'' (c_from args) @ code_issues ''to'' (c_to args) @
     amount_issues rt (c_amount args) @
     (case c_date args of
        None \<Rightarrow> []
      | Some d \<Rightarrow> date_issues ''date'' ''Date must be in YYYY-MM-DD format'' d)"

definition GetLatestRatesSchema :: "LatestArgs \<Rightarrow> issue list" where
  "GetLatestRatesSchema args =
     optional_code_issues ''base'' (l_base args) @ symbols_issues (l_symbols args)"

definition GetHistoricalRatesSchema :: "HistoricalArgs \<Rightarrow> issue list" where
  "GetHistoricalRatesSchema args =
     date_issues ''date'' ''Date must be in YYYY-MM-DD format'' (h_date args) @
     optional_code_issues ''base'' (h_base args) @ symbols_issues (h_symbols args)"

definition GetTimeSeriesSchema :: "TimeSeriesArgs \<Rightarrow> issue list" where
  "GetTimeSeriesSchema args =
     date_issues ''start_date'' ''Start date must be in YYYY-MM-DD format'' (t_start_date args) @
     date_issues ''end_date'' ''End date must be in YYYY-MM-DD format'' (t_end_date args) @
     optional_code_issues ''base'' (t_base args) @ symbols_issues (t_symbols args)"

definition format_or_default :: "ResponseFormat option \<Rightarrow> ResponseFormat" where
  "format_or_default f = (case f of None \<Rightarrow> MARKDOWN | Some fmt \<Rightarrow> fmt)"

section \<open>index.ts: the upstream payload seen at its declared type\<close>

text \<open>
  The payload of the upstream is whatever JSON value it sent. The handlers read it at
  the interfaces of \<open>types.ts\<close>; these functions give the fields the handlers read, and
  \<open>None\<close> when the payload does not have the declared type.
\<close>

definition property :: "'f jsvalue \<Rightarrow> string \<Rightarrow> 'f jsvalue option" where
  "property v key = (case v of Object kvs \<Rightarrow> map_of kvs (js key) | _ \<Rightarrow> None)"

definition string_property :: "'f jsvalue \<Rightarrow> string \<Rightarrow> jsstring option" where
  "string_property v key = (case property v key of Some (String str) \<Rightarrow> Some str | _ \<Rightarrow> None)"

definition number_entry :: "jsstring \<times> 'f jsvalue \<Rightarrow> (jsstring \<times> 'f number) option" where
  "number_entry kv = (case snd kv of Number n \<Rightarrow> Some (fst kv, n) | _ \<Rightarrow> None)"

definition number_record :: "'f jsvalue \<Rightarrow> (jsstring \<times> 'f number) list option" where
  \<comment> \<open>A \<open>Record<string, number>\<close>.\<close>
  "number_record v = (case v of Object kvs \<Rightarrow> those (map number_entry kvs) | _ \<Rightarrow> None)"

definition rates_property :: "'f jsvalue \<Rightarrow> (jsstring \<times> 'f number) list option" where
  "rates_property v = (case property v ''rates'' of Some r \<Rightarrow> number_record r | None \<Rightarrow> None)"

definition series_entry ::
  "jsstring \<times> 'f jsvalue \<Rightarrow> (jsstring \<times> (jsstring \<times> 'f number) list) option" where
  "series_entry kv = map_option (Pair (fst kv)) (number_record (snd kv))"

definition series_property ::
  "'f jsvalue \<Rightarrow> (jsstring \<times> (jsstring \<times> 'f number) list) list option" where
  \<comment> \<open>A \<open>Record<string, Record<string, number>>\<close>.\<close>
  "series_property v =
     (case property v ''rates'' of
        Some (Object kvs) \<Rightarrow> those (map series_entry kvs)
      | _ \<Rightarrow> None)"

definition string_entry :: "jsstring \<times> 'f jsvalue \<Rightarrow> (jsstring \<times> jsstring) option" where
  "string_entry kv = (case snd kv of String str \<Rightarrow> Some (fst kv, str) | _ \<Rightarrow> None)"

definition string_record :: "'f jsvalue \<Rightarrow> (jsstring \<times> jsstring) list option" where
  "string_record v = (case v of Object kvs \<Rightarrow> those (map string_entry kvs) | _ \<Rightarrow> None)"

section \<open>index.ts: tool handlers\<close>

record ToolResponse =
  content_text :: "jsstring option"
  \<comment> \<open>The text of the single content item; \<open>None\<close> when it is \<open>undefined\<close>.\<close>
  isError :: bool

datatype outcome =
    Responds ToolResponse
  | PayloadOfOtherType
    \<comment> \<open>The upstream payload does not have the type the handler declares for it and
        the handler reads it at that type; nothing in the source checks this, and what
        the runtime then does is not modelled.\<close>

definition success :: "jsstring option \<Rightarrow> ToolResponse" where
  "success content = \<lparr>content_text = content, isError = False\<rparr>"

definition failure :: "jsstring \<Rightarrow> ToolResponse" where
  "failure message = \<lparr>content_text = Some message, isError = True\<rparr>"

definition catch_block :: "thrown \<Rightarrow> ToolResponse" where
  "catch_block error =
     (case error of
        ZodError issues \<Rightarrow>
          failure (js ''Error: Invalid parameters - '' @
                   join (js ''; '') (map (\<lambda>(path, message). path @ js '': '' @ message) issues))
      | Error message \<Rightarrow> failure (js ''Error: '' @ message)
      | Thrown str \<Rightarrow> failure (js ''Error: '' @ str))"

definition build_params ::
  "'f runtime \<Rightarrow> jsstring option \<Rightarrow> jsstring list option \<Rightarrow>
   (jsstring \<times> (jsstring + jsstring list)) list" where
  \<comment> \<open>\<open>if (base)\<close> holds for a string that is not empty, \<open>if (symbols)\<close> for every array.\<close>
  "build_params rt base symbols =
     (case base of
        None \<Rightarrow> []
      | Some b \<Rightarrow> if b = [] then [] else [(js ''base'', Inl (rt_toUpperCase rt b))]) @
     (case symbols of
        None \<Rightarrow> []
      | Some xs \<Rightarrow> [(js ''symbols'', Inr (map (rt_toUpperCase rt) xs))])"

definition convert_currency ::
  "'f runtime \<Rightarrow> (request \<Rightarrow> 'f http_result) \<Rightarrow> 'f ConvertArgs \<Rightarrow> outcome \<times> request list" where
  "convert_currency rt http args =
     (case ConvertCurrencySchema rt args of
        i # issues \<Rightarrow> (Responds (catch_block (ZodError (i # issues))), [])
      | [] \<Rightarrow>
          let from = rt_toUpperCase rt (c_from args);
              to = rt_toUpperCase rt (c_to args);
              path = (case c_date args of
                        None \<Rightarrow> js ''/latest''
                      | Some d \<Rightarrow> if d = [] then js ''/latest'' else js ''/'' @ d);
              params = [(js ''from'', Inl from), (js ''to'', Inl to)];
              sent = [api_request path params]
          in (case makeApiRequest http path params of
               Inl error \<Rightarrow> (Responds (catch_block error), sent)
             | Inr data \<Rightarrow>
                 (case (rates_property data, string_property data ''date'') of
                    (Some rates, Some date) \<Rightarrow>
                      let rate = map_of rates to;
                          result = multiply rt (c_amount args) (ToNumber rate)
                      in if format_or_default (c_response_format args) = JSON
                         then (Responds (success (formatAsJSON rt
                                 (Object [(js ''from'', String from),
                                          (js ''to'', String to),
                                          (js ''amount'', Number (c_amount args)),
                                          (js ''rate'', case rate of None \<Rightarrow> Undefined | Some r \<Rightarrow> Number r),
                                          (js ''result'', Number result),
                                          (js ''date'', String date)]))), sent)
                         else (case formatConversionAsMarkdown rt from to (c_amount args) rate result date of
                                 Inl error \<Rightarrow> (Responds (catch_block error), sent)
                               | Inr content \<Rightarrow> (Responds (success (Some content)), sent))
                  | _ \<Rightarrow> (PayloadOfOtherType, sent))))"

definition rates_content ::
  "'f runtime \<Rightarrow> ResponseFormat \<Rightarrow> 'f jsvalue \<Rightarrow> outcome" where
  \<comment> \<open>The formatting step that the latest-rates and the historical-rates handlers share.\<close>
  "rates_content rt format data =
     (if format = JSON then Responds (success (formatAsJSON rt data))
      else (case (rates_property data, string_property data ''base'', string_property data ''date'') of
              (Some rates, Some base, Some date) \<Rightarrow>
                Responds (success (Some (formatRatesAsMarkdown rt rates base date)))
            | _ \<Rightarrow> PayloadOfOtherType))"

definition get_latest_rates ::
  "'f runtime \<Rightarrow> (request \<Rightarrow> 'f http_result) \<Rightarrow> LatestArgs \<Rightarrow> outcome \<times> request list" where
  "get_latest_rates rt http args =
     (case GetLatestRatesSchema args of
        i # issues \<Rightarrow> (Responds (catch_block (ZodError (i # issues))), [])
      | [] \<Rightarrow>
          let params = build_params rt (l_base args) (l_symbols args);
              sent = [api_request (js ''/latest'') params]
          in (case makeApiRequest http (js ''/latest'') params of
               Inl error \<Rightarrow> (Responds (catch_block error), sent)
             | Inr data \<Rightarrow> (rates_content rt (format_or_default (l_response_format args)) data, sent)))"

definition get_historical_rates ::
  "'f runtime \<Rightarrow> int \<Rightarrow> (request \<Rightarrow> 'f http_result) \<Rightarrow> HistoricalArgs \<Rightarrow> outcome \<times> request list" where
  \<comment> \<open>The second argument is the time value of \<open>new Date()\<close>, the current instant.\<close>
  "get_historical_rates rt now http args =
     (case GetHistoricalRatesSchema args of
        i # issues \<Rightarrow> (Responds (catch_block (ZodError (i # issues))), [])
      | [] \<Rightarrow>
          if time_gt (Date_parse rt (h_date args)) (Some now)
          then (Responds (failure (js ''Error: Date '' @ [0x27] @ h_date args @ [0x27] @
                  js '' is in the future. For current rates, use frankfurter_get_latest_rates instead.'')), [])
          else
            let params = build_params rt (h_base args) (h_symbols args);
                path = js ''/'' @ h_date args;
                sent = [api_request path params]
            in (case makeApiRequest http path params of
                 Inl error \<Rightarrow> (Responds (catch_block error), sent)
               | Inr data \<Rightarrow> (rates_content rt (format_or_default (h_response_format args)) data, sent)))"

definition symbolList ::
  "'f runtime \<Rightarrow> jsstring list option \<Rightarrow> (jsstring \<times> (jsstring \<times> 'f number) list) list \<Rightarrow> jsstring list" where
  \<comment> \<open>Without requested symbols, the keys of the first date of the series.\<close>
  "symbolList rt symbols rates =
     (case symbols of
        Some xs \<Rightarrow> map (rt_toUpperCase rt) xs
      | None \<Rightarrow> (case rates of [] \<Rightarrow> [] | first # _ \<Rightarrow> map fst (snd first)))"

definition get_time_series ::
  "'f runtime \<Rightarrow> (request \<Rightarrow> 'f http_result) \<Rightarrow> TimeSeriesArgs \<Rightarrow> outcome \<times> request list" where
  "get_time_series rt http args =
     (case GetTimeSeriesSchema args of
        i # issues \<Rightarrow> (Responds (catch_block (ZodError (i # issues))), [])
      | [] \<Rightarrow>
          if time_ge (Date_parse rt (t_start_date args)) (Date_parse rt (t_end_date args))
          then (Responds (failure (js ''Error: start_date '' @ [0x27] @ t_start_date args @ [0x27] @
                  js '' must be before end_date '' @ [0x27] @ t_end_date args @ [0x27] @ js ''.'')), [])
          else
            let response_format = format_or_default (t_response_format args);
                params = build_params rt (t_base args) (t_symbols args);
                path = js ''/'' @ t_start_date args @ js ''..'' @ t_end_date args;
                sent = [api_request path params]
            in (case makeApiRequest http path params of
                 Inl error \<Rightarrow> (Responds (catch_block error), sent)
               | Inr data \<Rightarrow>
                   (case (if response_format = JSON then Some (Inr (formatAsJSON rt data))
                          else (case (series_property data, string_property data ''base'') of
                                  (Some rates, Some base) \<Rightarrow>
                                    Some (map_sum id Some
                                      (formatTimeSeriesAsMarkdown rt rates base
                                         (symbolList rt (t_symbols args) rates)))
                                | _ \<Rightarrow> None)) of
                      None \<Rightarrow> (PayloadOfOtherType, sent)
                    | Some (Inl error) \<Rightarrow> (Responds (catch_block error), sent)
                    | Some (Inr content) \<Rightarrow>
                        (case formatResponse rt
                                (case content of None \<Rightarrow> Undefined | Some str \<Rightarrow> String str)
                                response_format
                                (if response_format = MARKDOWN then None else Some (\<lambda>_. content)) of
                           Inl error \<Rightarrow> (Responds (catch_block error), sent)
                         | Inr final \<Rightarrow> (Responds (success (Some final)), sent)))))"

definition list_currencies ::
  "'f runtime \<Rightarrow> (request \<Rightarrow> 'f http_result) \<Rightarrow> ListArgs \<Rightarrow> outcome \<times> request list" where
  "list_currencies rt http args =
     (let sent = [api_request (js ''/currencies'') []]
      in case makeApiRequest http (js ''/currencies'') [] of
           Inl error \<Rightarrow> (Responds (catch_block error), sent)
         | Inr data \<Rightarrow>
             if format_or_default (k_response_format args) = JSON
             then (Responds (success (formatAsJSON rt data)), sent)
             else (case string_record data of
                     Some currencies \<Rightarrow>
                       (Responds (success (Some (formatCurrenciesAsMarkdown rt currencies))), sent)
                   | None \<Rightarrow> (PayloadOfOtherType, sent)))"

definition CallTool ::
  "'f runtime \<Rightarrow> int \<Rightarrow> (request \<Rightarrow> 'f http_result) \<Rightarrow> 'f tool_call \<Rightarrow> outcome \<times> request list" where
  \<comment> \<open>The handler of a tool call: the response, and the requests sent to the upstream.\<close>
  "CallTool rt now http call =
     (case call of
        frankfurter_convert_currency args \<Rightarrow> convert_currency rt http args
      | frankfurter_get_latest_rates args \<Rightarrow> get_latest_rates rt http args
      | frankfurter_get_historical_rates args \<Rightarrow> get_historical_rates rt now http args
      | frankfurter_get_time_series args \<Rightarrow> get_time_series rt http args
      | frankfurter_list_currencies args \<Rightarrow> list_currencies rt http args
      | unknown_tool name \<Rightarrow>
          (Responds (failure (js ''Error: Unknown tool '' @ [0x27] @ name @ [0x27] @
             js ''. Available tools: frankfurter_convert_currency, frankfurter_get_latest_rates, frankfurter_get_historical_rates, frankfurter_get_time_series, frankfurter_list_currencies'')), []))"

section \<open>A runtime and upstreams for the examples\<close>

text \<open>
  The examples run the model on a runtime whose numbers are integers (which doubles
  represent exactly in the safe range, where the product and the printed forms below are
  the ones of the engine), whose strings are ASCII and whose time zone is UTC.
\<close>

definition show_int :: "int \<Rightarrow> jsstring" where
  "show_int i = (if i < 0 then js ''-'' @ show_nat (nat (- i)) else show_nat (nat i))"

definition ascii_upper :: "code_unit \<Rightarrow> code_unit" where
  "ascii_upper c = (if 0x61 \<le> c \<and> c \<le> 0x7A then c - 0x20 else c)"

definition integer_runtime :: "int runtime" where
  "integer_runtime =
     \<lparr>rt_toUpperCase = map ascii_upper,
      rt_multiply = (\<lambda>a b. Num (a * b)),
      rt_isFinite = (\<lambda>a. True),
      rt_positive = (\<lambda>a. 0 < a),
      rt_toString = show_int,
      rt_toFixed = (\<lambda>d a. show_int a @ (if d = 0 then [] else js ''.'' @ replicate d 0x30)),
      rt_localeCompare = (\<lambda>a b. if a < b then - 1 else if a = b then 0 else 1),
      rt_LocalTZA = (\<lambda>t. 0)\<rparr>"

definition upstream_status :: "nat \<Rightarrow> string \<Rightarrow> request \<Rightarrow> int http_result" where
  \<comment> \<open>An upstream that answers every request with the given status.\<close>
  "upstream_status status reason req =
     AxiosFailure \<lparr>ae_code = Some (js (if status < 500 then ''ERR_BAD_REQUEST'' else ''ERR_BAD_RESPONSE'')),
                   ae_response = Some (status, js reason),
                   ae_request = True,
                   ae_message = js ''Request failed with status code '' @ show_nat status\<rparr>"

definition upstream_data :: "int jsvalue \<Rightarrow> request \<Rightarrow> int http_result" where
  \<comment> \<open>An upstream that answers every request with the given payload.\<close>
  "upstream_data payload req = Data payload"


section \<open>Reading JSON text\<close>

text \<open>
  The claims about the JSON format speak of parsing the rendered text. The reading of a
  JSON text is the one of \<open>JSON.parse\<close>: white space between tokens, string literals with
  their escapes, the literals \<open>true\<close>, \<open>false\<close> and \<open>null\<close>, arrays, objects (whose
  members become properties of a new object) and number literals. The conversion of a
  number literal to a number is an operation of the engine and an argument of the reader:
  it gives the number for a text that is a number literal and \<open>None\<close> for any other text.
\<close>

definition is_ws :: "code_unit \<Rightarrow> bool" where
  "is_ws c = (c = 0x20 \<or> c = 0x0A \<or> c = 0x0D \<or> c = 0x09)"

definition skip_ws :: "jsstring \<Rightarrow> jsstring" where
  "skip_ws s = dropWhile is_ws s"

definition hex_value :: "code_unit \<Rightarrow> nat option" where
  "hex_value c =
     (if 0x30 \<le> c \<and> c \<le> 0x39 then Some (unat c - 48)
      else if 0x61 \<le> c \<and> c \<le> 0x66 then Some (unat c - 87)
      else if 0x41 \<le> c \<and> c \<le> 0x46 then Some (unat c - 55)
      else None)"

definition hex4 :: "code_unit \<Rightarrow> code_unit \<Rightarrow> code_unit \<Rightarrow> code_unit \<Rightarrow> code_unit option" where
  "hex4 a b c d =
     (case (hex_value a, hex_value b, hex_value c, hex_value d) of
        (Some h1, Some h2, Some h3, Some h4) \<Rightarrow> Some (of_nat (4096 * h1 + 256 * h2 + 16 * h3 + h4))
      | _ \<Rightarrow> None)"

definition unescape :: "code_unit \<Rightarrow> code_unit option" where
  \<comment> \<open>The character of a two-character escape, by the character after the backslash.\<close>
  "unescape e =
     (if e = 0x22 then Some 0x22
      else if e = 0x5C then Some 0x5C
      else if e = 0x2F then Some 0x2F
      else if e = 0x62 then Some 0x08
      else if e = 0x66 then Some 0x0C
      else if e = 0x6E then Some 0x0A
      else if e = 0x72 then Some 0x0D
      else if e = 0x74 then Some 0x09
      else None)"

definition consed :: "'a \<Rightarrow> ('a list \<times> 'b) option \<Rightarrow> ('a list \<times> 'b) option" where
  "consed x r = map_option (\<lambda>(xs, rest). (x # xs, rest)) r"

fun parse_chars :: "jsstring \<Rightarrow> (jsstring \<times> jsstring) option" where
  \<comment> \<open>The characters of a string literal after its opening quotation mark, up to the
      closing one; the result is the string and the text that follows the literal.\<close>
  "parse_chars [] = None"
| "parse_chars (c # cs) =
     (if c = 0x22 then Some ([], cs)
      else if c = 0x5C then
        (case cs of
           [] \<Rightarrow> None
         | e # r \<Rightarrow>
             if e = 0x75 then
               (case r of
                  h1 # h2 # h3 # h4 # r' \<Rightarrow>
                    (case hex4 h1 h2 h3 h4 of
                       None \<Rightarrow> None
                     | Some u \<Rightarrow> consed u (parse_chars r'))
                | _ \<Rightarrow> None)
             else (case unescape e of
                     None \<Rightarrow> None
                   | Some u \<Rightarrow> consed u (parse_chars r)))
      else if c < 0x20 then None
      else consed c (parse_chars cs))"


definition is_number_char :: "code_unit \<Rightarrow> bool" where
  \<comment> \<open>The characters of number literals: digits, signs, the point and the exponent mark.\<close>
  "is_number_char c = (is_digit c \<or> c = 0x2D \<or> c = 0x2B \<or> c = 0x2E \<or> c = 0x65 \<or> c = 0x45)"

fun put_member :: "'k \<times> 'v \<Rightarrow> ('k \<times> 'v) list \<Rightarrow> ('k \<times> 'v) list" where
  \<comment> \<open>A member of an object literal is stored under its key: a new key after the others,
      a key met before with the new value in its old place.\<close>
  "put_member (k, v) [] = [(k, v)]"
| "put_member (k, v) ((k', v') # kvs) =
     (if k = k' then (k, v) # kvs else (k', v') # put_member (k, v) kvs)"

definition decimal_value :: "jsstring \<Rightarrow> nat" where
  "decimal_value k = foldl (\<lambda>n c. 10 * n + (unat c - 48)) 0 k"

definition is_array_index :: "jsstring \<Rightarrow> bool" where
  \<comment> \<open>The canonical decimal form of an integer from 0 to \<open>2^32 - 2\<close>.\<close>
  "is_array_index k =
     (k \<noteq> [] \<and> list_all is_digit k \<and> (length k = 1 \<or> hd k \<noteq> 0x30) \<and>
      decimal_value k < 4294967295)"

definition own_property_order :: "(jsstring \<times> 'v) list \<Rightarrow> (jsstring \<times> 'v) list" where
  \<comment> \<open>The order in which an object enumerates its properties: the array indices in
      ascending numeric order, then the other keys in the order of their creation.\<close>
  "own_property_order kvs =
     sort_key (\<lambda>kv. decimal_value (fst kv)) (filter (\<lambda>kv. is_array_index (fst kv)) kvs) @
     filter (\<lambda>kv. \<not> is_array_index (fst kv)) kvs"

definition object_of_members :: "(jsstring \<times> 'v) list \<Rightarrow> (jsstring \<times> 'v) list" where
  "object_of_members kvs = own_property_order (foldl (\<lambda>acc kv. put_member kv acc) [] kvs)"

function parse_value :: "(jsstring \<Rightarrow> 'f option) \<Rightarrow> jsstring \<Rightarrow> ('f jsvalue \<times> jsstring) option"
  and parse_elements :: "(jsstring \<Rightarrow> 'f option) \<Rightarrow> jsstring \<Rightarrow> ('f jsvalue list \<times> jsstring) option"
  and parse_members :: "(jsstring \<Rightarrow> 'f option) \<Rightarrow> jsstring \<Rightarrow> ((jsstring \<times> 'f jsvalue) list \<times> jsstring) option"
where
  "parse_value pn s =
     (case skip_ws s of
        [] \<Rightarrow> None
      | c # cs \<Rightarrow>
          if c = 0x22 then map_option (\<lambda>(str, rest). (String str, rest)) (parse_chars cs)
          else if c = 0x5B then
            (case skip_ws cs of
               [] \<Rightarrow> None
             | d # ds \<Rightarrow>
                 if d = 0x5D then Some (Array [], ds)
                 else map_option (\<lambda>(xs, rest). (Array xs, rest)) (parse_elements pn cs))
          else if c = 0x7B then
            (case skip_ws cs of
               [] \<Rightarrow> None
             | d # ds \<Rightarrow>
                 if d = 0x7D then Some (Object [], ds)
                 else map_option (\<lambda>(kvs, rest). (Object (object_of_members kvs), rest))
                        (parse_members pn cs))
          else if take 4 (c # cs) = js ''true'' then Some (Bool True, drop 4 (c # cs))
          else if take 5 (c # cs) = js ''false'' then Some (Bool False, drop 5 (c # cs))
          else if take 4 (c # cs) = js ''null'' then Some (Null, drop 4 (c # cs))
          else (case pn (takeWhile is_number_char (c # cs)) of
                  None \<Rightarrow> None
                | Some a \<Rightarrow> Some (Number (Num a), dropWhile is_number_char (c # cs))))"
| "parse_elements pn s =
     (case parse_value pn s of
        None \<Rightarrow> None
      | Some (v, r) \<Rightarrow>
          if length r < length s then
            (case skip_ws r of
               [] \<Rightarrow> None
             | c # cs \<Rightarrow>
                 if c = 0x2C then consed v (parse_elements pn cs)
                 else if c = 0x5D then Some ([v], cs)
                 else None)
          else None)"
| "parse_members pn s =
     (case skip_ws s of
        [] \<Rightarrow> None
      | q # cs \<Rightarrow>
          if q = 0x22 then
            (case parse_chars cs of
               None \<Rightarrow> None
             | Some (k, r) \<Rightarrow>
                 (case skip_ws r of
                    [] \<Rightarrow> None
                  | colon # r1 \<Rightarrow>
                      if colon = 0x3A then
                        (case parse_value pn r1 of
                           None \<Rightarrow> None
                         | Some (v, r2) \<Rightarrow>
                             if length r2 < length r1 then
                               (case skip_ws r2 of
                                  [] \<Rightarrow> None
                                | c # r3 \<Rightarrow>
                                    if c = 0x2C then consed (k, v) (parse_members pn r3)
                                    else if c = 0x7D then Some ([(k, v)], r3)
                                    else None)
                             else None)
                      else None))
          else None)"
  by pat_completeness auto


termination
proof -
  have chars: "length rest < length s" if "parse_chars s = Some (str, rest)" for s str rest
    using that
  proof (induction s arbitrary: str rest rule: parse_chars.induct)
    case 1
    then show ?case by simp
  next
    case (2 c cs)
    then show ?case
      by (auto simp add: consed_def split: if_splits list.splits option.splits) fastforce+
  qed
  have skip: "length cs < length s" if "skip_ws s = c # cs" for s c cs
    using that length_dropWhile_le [of is_ws s] by (simp add: skip_ws_def)
  show ?thesis
  proof (relation "measure (\<lambda>x. case x of
            Inl (pn, s) \<Rightarrow> 2 * length s
          | Inr (Inl (pn, s)) \<Rightarrow> 2 * length s + 1
          | Inr (Inr (pn, s)) \<Rightarrow> 2 * length s + 1)", goal_cases)
    case 1
    show ?case by simp
  next
    case (2 pn s c cs d ds)
    then show ?case using skip [of s c cs] by simp
  next
    case (3 pn s c cs d ds)
    then show ?case using skip [of s c cs] by simp
  next
    case (4 pn s)
    show ?case by simp
  next
    case (5 pn s x v r c cs)
    then show ?case using skip [of r c cs] by simp
  next
    case (6 pn s q cs x k r colon r1)
    then show ?case
      using skip [of s q cs] chars [of cs k r] skip [of r colon r1] by simp
  next
    case (7 pn s q cs x k r colon r1 y v r2 c r3)
    then show ?case
      using skip [of s q cs] chars [of cs k r] skip [of r colon r1] skip [of r2 c r3] by simp
  qed
qed

declare parse_value.simps [simp del] parse_elements.simps [simp del] parse_members.simps [simp del]

definition JSON_parse :: "(jsstring \<Rightarrow> 'f option) \<Rightarrow> jsstring \<Rightarrow> 'f jsvalue option" where
  "JSON_parse pn s =
     (case parse_value pn s of
        None \<Rightarrow> None
      | Some (v, rest) \<Rightarrow> if skip_ws rest = [] then Some v else None)"

definition reads_back :: "'f runtime \<Rightarrow> (jsstring \<Rightarrow> 'f option) \<Rightarrow> 'f \<Rightarrow> bool" where
  \<comment> \<open>The number is finite, and its printed form is a number literal that reads as the
      same number.\<close>
  "reads_back rt pn a =
     (rt_isFinite rt a \<and> rt_toString rt a \<noteq> [] \<and> list_all is_number_char (rt_toString rt a) \<and>
      pn (rt_toString rt a) = Some a)"

fun representable :: "'f runtime \<Rightarrow> (jsstring \<Rightarrow> 'f option) \<Rightarrow> 'f jsvalue \<Rightarrow> bool" where
  "representable rt pn Undefined = False"
| "representable rt pn Null = True"
| "representable rt pn (Bool b) = True"
| "representable rt pn (Number NaN) = False"
| "representable rt pn (Number (Num a)) = reads_back rt pn a"
| "representable rt pn (String str) = True"
| "representable rt pn (Array xs) = (\<forall>x \<in> set xs. representable rt pn x)"
| "representable rt pn (Object kvs) =
     (distinct (map fst kvs) \<and> own_property_order kvs = kvs \<and>
      (\<forall>kv \<in> set kvs. representable rt pn (snd kv)))"

definition text_of :: "'f runtime \<Rightarrow> jsstring \<Rightarrow> 'f jsvalue \<Rightarrow> jsstring" where
  "text_of rt indent v = (case SerializeJSONProperty rt indent v of None \<Rightarrow> [] | Some t \<Rightarrow> t)"

definition rest_ok :: "jsstring \<Rightarrow> bool" where
  "rest_ok rest = (case rest of [] \<Rightarrow> True | c # _ \<Rightarrow> \<not> is_number_char c)"

definition read_int :: "jsstring \<Rightarrow> int option" where
  \<comment> \<open>The value of a number literal without fraction and exponent, for the runtime of
      the examples.\<close>
  "read_int s =
     (let ds = (case s of [] \<Rightarrow> [] | c # cs \<Rightarrow> if c = 0x2D then cs else s)
      in if ds \<noteq> [] \<and> list_all is_digit ds \<and> (length ds = 1 \<or> hd ds \<noteq> 0x30)
         then Some (if ds = s then int (decimal_value ds) else - int (decimal_value ds))
         else None)"

section \<open>Properties of truncation\<close>

lemma length_js [simp]: "length (js s) = length s"
  by (simp add: js_def)

lemma length_truncationMessage_JSON: "length (truncationMessage JSON) = 48"
  by (simp add: truncationMessage_def)

lemma show_nat_CHARACTER_LIMIT: "show_nat CHARACTER_LIMIT = js ''25000''"
  by (simp add: CHARACTER_LIMIT_def show_nat.simps digit_unit_def js_def)

lemma length_truncationMessage_MARKDOWN: "length (truncationMessage MARKDOWN) = 199"
  by (simp add: truncationMessage_def show_nat_CHARACTER_LIMIT)

lemma truncationMessage_nonempty: "truncationMessage fmt \<noteq> []"
proof (cases fmt)
  case JSON
  then show ?thesis using length_truncationMessage_JSON by auto
next
  case MARKDOWN
  then show ?thesis using length_truncationMessage_MARKDOWN by auto
qed

lemma CHARACTER_LIMIT_value: "CHARACTER_LIMIT = 25000"
  by (simp add: CHARACTER_LIMIT_def)

text \<open>
  Claim C2. Content of at most 25000 code units is returned unchanged with
  \<open>truncated = false\<close> and no other metadata; longer content is cut to its first 25000
  code units and the notice of the format is appended: in the Markdown format the
  199 code units of the note that names the limit and lists three ways to narrow the
  request, in the JSON format the 48 code units of the bracketed marker. The metadata
  then records \<open>truncated = true\<close>, the fixed message and the length before the cut.
\<close>

theorem truncateIfNeeded_contract:
  "(length content \<le> 25000 \<longrightarrow>
      truncateIfNeeded content fmt =
        (content, \<lparr>truncated = False, truncation_message = None, original_length = None\<rparr>)) \<and>
   (length content > 25000 \<longrightarrow>
      fst (truncateIfNeeded content MARKDOWN) =
        take 25000 content @
        js ''\<newline>\<newline>---\<newline>\<newline>**Note:** Response was truncated due to size limit (25000 characters). To see more data, try:\<newline>- Narrowing the date range\<newline>- Filtering with the 'symbols' parameter\<newline>- Using pagination parameters\<newline>'' \<and>
      length (fst (truncateIfNeeded content MARKDOWN)) = 25000 + 199 \<and>
      fst (truncateIfNeeded content JSON) =
        take 25000 content @ js ''\<newline>\<newline>[TRUNCATED: Response exceeded character limit]'' \<and>
      length (fst (truncateIfNeeded content JSON)) = 25000 + 48 \<and>
      snd (truncateIfNeeded content fmt) =
        \<lparr>truncated = True,
         truncation_message = Some (js ''Response exceeded character limit and was truncated''),
         original_length = Some (length content)\<rparr>)"
  by (simp add: truncateIfNeeded_def CHARACTER_LIMIT_def truncationMessage_def
      show_nat.simps digit_unit_def js_def)

theorem truncateIfNeeded_contract_witness:
  "length (js ''| EUR | Euro |'') \<le> 25000 \<and>
   truncateIfNeeded (js ''| EUR | Euro |'') MARKDOWN =
     (js ''| EUR | Euro |'',
      \<lparr>truncated = False, truncation_message = None, original_length = None\<rparr>) \<and>
   length (replicate 25007 (0x61 :: code_unit)) > 25000 \<and>
   fst (truncateIfNeeded (replicate 25007 0x61) MARKDOWN) =
     replicate 25000 0x61 @
     js ''\<newline>\<newline>---\<newline>\<newline>**Note:** Response was truncated due to size limit (25000 characters). To see more data, try:\<newline>- Narrowing the date range\<newline>- Filtering with the 'symbols' parameter\<newline>- Using pagination parameters\<newline>'' \<and>
   length (fst (truncateIfNeeded (replicate 25007 (0x61 :: code_unit)) MARKDOWN)) = 25199 \<and>
   fst (truncateIfNeeded (replicate 25007 0x61) JSON) =
     replicate 25000 0x61 @ js ''\<newline>\<newline>[TRUNCATED: Response exceeded character limit]'' \<and>
   length (fst (truncateIfNeeded (replicate 25007 (0x61 :: code_unit)) JSON)) = 25048 \<and>
   snd (truncateIfNeeded (replicate 25007 (0x61 :: code_unit)) MARKDOWN) =
     \<lparr>truncated = True,
      truncation_message = Some (js ''Response exceeded character limit and was truncated''),
      original_length = Some 25007\<rparr>"
  using truncateIfNeeded_contract [of "js ''| EUR | Euro |''" MARKDOWN]
        truncateIfNeeded_contract [of "replicate 25007 0x61" MARKDOWN]
  by simp

text \<open>
  Claim C3, as stated, fails: an output that carries the notice has 25000 code units
  plus the notice, so it is within "the limit plus the notice length" and still longer
  than the limit, and a second application cuts it again and reports
  \<open>truncated = true\<close>.
\<close>

theorem truncateIfNeeded_twice_counterexample:
  "length (fst (truncateIfNeeded (replicate 25001 (0x61 :: code_unit)) JSON))
     \<le> CHARACTER_LIMIT + length (truncationMessage JSON) \<and>
   truncated (snd (truncateIfNeeded
     (fst (truncateIfNeeded (replicate 25001 (0x61 :: code_unit)) JSON)) JSON)) = True"
  by (simp add: truncateIfNeeded_def CHARACTER_LIMIT_def length_truncationMessage_JSON)

text \<open>
  Claim C3, amended. Truncating again reports \<open>truncated = false\<close> exactly for the
  outputs of at most 25000 code units, which are the contents that the first application
  returned unchanged; there the second application returns the same result as the first.
  An output that carries the notice is longer than the limit, and truncating it again
  reports \<open>truncated = true\<close>.
\<close>

theorem truncateIfNeeded_twice:
  "(length (fst (truncateIfNeeded content fmt)) \<le> CHARACTER_LIMIT \<longrightarrow>
      truncateIfNeeded (fst (truncateIfNeeded content fmt)) fmt = truncateIfNeeded content fmt \<and>
      truncated (snd (truncateIfNeeded (fst (truncateIfNeeded content fmt)) fmt)) = False) \<and>
   (length content > CHARACTER_LIMIT \<longrightarrow>
      truncated (snd (truncateIfNeeded (fst (truncateIfNeeded content fmt)) fmt)) = True)"
  by (simp add: truncateIfNeeded_def truncationMessage_nonempty)

theorem truncateIfNeeded_twice_witness:
  "length (fst (truncateIfNeeded (js ''{}'') JSON)) \<le> CHARACTER_LIMIT \<and>
   truncateIfNeeded (fst (truncateIfNeeded (js ''{}'') JSON)) JSON = truncateIfNeeded (js ''{}'') JSON \<and>
   truncated (snd (truncateIfNeeded (fst (truncateIfNeeded (js ''{}'') JSON)) JSON)) = False \<and>
   length (replicate 25001 (0x61 :: code_unit)) > CHARACTER_LIMIT \<and>
   truncated (snd (truncateIfNeeded
     (fst (truncateIfNeeded (replicate 25001 (0x61 :: code_unit)) MARKDOWN)) MARKDOWN)) = True"
  using truncateIfNeeded_twice [of "js ''{}''" JSON]
        truncateIfNeeded_twice [of "replicate 25001 0x61" MARKDOWN]
  by (simp add: truncateIfNeeded_def CHARACTER_LIMIT_def)


section \<open>Properties of the client\<close>

text \<open>
  Claim C5, as stated, fails: the status 504 is a 5xx status, and the request fails
  with the generic message, not with the message for a degraded upstream.
\<close>

theorem handleApiError_504_counterexample:
  "makeApiRequest (upstream_status 504 ''Gateway Timeout'') (js ''/latest'') [] =
     Inl (Error (js ''API request failed with status 504: Gateway Timeout'')) \<and>
   makeApiRequest (upstream_status 504 ''Gateway Timeout'') (js ''/latest'') [] \<noteq>
     Inl (Error (js ''The Frankfurter API is currently experiencing issues. Please try again later.''))"
  by (simp add: makeApiRequest_def upstream_status_def handleApiError_def js_def
      show_nat.simps digit_unit_def)

text \<open>
  Claim C5, amended. When the upstream answers with a status outside the 2xx range
  (the error of the HTTP client carries the response and is not an aborted connection),
  the request fails with a message chosen by the status: 404 gives the message for a
  resource that was not found, 429 the message for the rate limit, 500, 502 and 503
  the message for a degraded upstream, and every other status (the other 5xx codes
  included) the generic message with the status number and the reason.
\<close>

theorem makeApiRequest_status_message:
  assumes "http (api_request path params) = AxiosFailure error"
    and "ae_code error \<noteq> Some (js ''ECONNABORTED'')"
    and "ae_response error = Some (status, reason)"
  shows "makeApiRequest http path params =
     Inl (Error
       (if status = 404
        then js ''The requested resource was not found. Please check your date range and currency codes.''
        else if status = 429
        then js ''Rate limit exceeded. Please wait a moment before making more requests.''
        else if status \<in> {500, 502, 503}
        then js ''The Frankfurter API is currently experiencing issues. Please try again later.''
        else js ''API request failed with status '' @ show_nat status @ js '': '' @ reason))"
  using assms by (simp add: makeApiRequest_def handleApiError_def)

theorem makeApiRequest_status_message_witness:
  "makeApiRequest (upstream_status 404 ''Not Found'') (js ''/2024-01-01'') [] =
     Inl (Error (js ''The requested resource was not found. Please check your date range and currency codes.'')) \<and>
   makeApiRequest (upstream_status 429 ''Too Many Requests'') (js ''/latest'') [] =
     Inl (Error (js ''Rate limit exceeded. Please wait a moment before making more requests.'')) \<and>
   makeApiRequest (upstream_status 503 ''Service Unavailable'') (js ''/latest'') [] =
     Inl (Error (js ''The Frankfurter API is currently experiencing issues. Please try again later.'')) \<and>
   makeApiRequest (upstream_status 501 ''Not Implemented'') (js ''/latest'') [] =
     Inl (Error (js ''API request failed with status 501: Not Implemented''))"
proof -
  have code: "ae_code \<lparr>ae_code = Some (js c), ae_response = r, ae_request = True, ae_message = m\<rparr>
      \<noteq> Some (js ''ECONNABORTED'')"
    if "c = ''ERR_BAD_REQUEST'' \<or> c = ''ERR_BAD_RESPONSE''" for c r m
    using that by (auto simp add: js_def)
  show ?thesis
    using makeApiRequest_status_message
        [of "upstream_status 404 ''Not Found''" "js ''/2024-01-01''" "[]" _ 404 "js ''Not Found''"]
      makeApiRequest_status_message
        [of "upstream_status 429 ''Too Many Requests''" "js ''/latest''" "[]" _ 429 "js ''Too Many Requests''"]
      makeApiRequest_status_message
        [of "upstream_status 503 ''Service Unavailable''" "js ''/latest''" "[]" _ 503 "js ''Service Unavailable''"]
      makeApiRequest_status_message
        [of "upstream_status 501 ''Not Implemented''" "js ''/latest''" "[]" _ 501 "js ''Not Implemented''"]
    by (simp add: upstream_status_def code show_nat.simps digit_unit_def js_def)
qed

section \<open>Properties of the date checks\<close>

lemma later_day_later_time:
  assumes "Day now < Day t"
  shows "now < t"
proof -
  have "now < (now div msPerDay + 1) * msPerDay"
    unfolding msPerDay_def by (simp add: int_distrib)
  also have "\<dots> \<le> Day t * msPerDay"
    using assms unfolding Day_def msPerDay_def by simp
  also have "\<dots> \<le> t"
    unfolding Day_def msPerDay_def by simp
  finally show ?thesis .
qed

lemmas date_eval =
  js_def is_digit_def digit_value_def MakeDay_def DayFromYear_def days_before_month_def
  msPerDay_def InLeapYear_def Day_def

lemma Date_parse_examples:
  "Date_parse rt (js ''2024-02-29'') = Some 1709164800000"
  "Date_parse rt (js ''2024-13-01'') = None"
  "Date_parse integer_runtime (js ''0005-13-45'') = Some 2378246400000"
  "Date_parse integer_runtime (js ''0012-31-99'') = Some 946598400000"
  by (simp_all add: date_eval integer_runtime_def)

text \<open>
  Claim C6. A call of the historical-rates tool with valid arguments whose date is a
  calendar date (the runtime parses it, to midnight UTC of that day) later than the
  current date (the UTC day of the current instant) returns the error-flagged guidance
  text that names the latest-rates tool, and sends no request to the upstream. The same
  holds of every other string that the runtime reads as an instant of a later UTC day.
\<close>

theorem get_historical_rates_future_date:
  assumes "GetHistoricalRatesSchema args = []"
    and "Date_parse rt (h_date args) = Some t"
    and "Day now < Day t"
  shows "CallTool rt now http (frankfurter_get_historical_rates args) =
     (Responds \<lparr>content_text = Some (js ''Error: Date '' @ [0x27] @ h_date args @ [0x27] @
          js '' is in the future. For current rates, use frankfurter_get_latest_rates instead.''),
        isError = True\<rparr>, [])"
proof -
  have "now < t"
    using later_day_later_time [OF assms(3)] .
  then show ?thesis
    using assms(1,2) by (simp add: CallTool_def get_historical_rates_def failure_def)
qed

theorem get_historical_rates_future_date_witness:
  "GetHistoricalRatesSchema \<lparr>h_date = js ''2099-01-01'', h_base = Some (js ''usd''),
       h_symbols = None, h_response_format = None\<rparr> = [] \<and>
   Date_parse integer_runtime (js ''2099-01-01'') = Some 4070908800000 \<and>
   Day 1793577600000 < Day 4070908800000 \<and>
   CallTool integer_runtime 1793577600000 (upstream_status 404 ''Not Found'')
     (frankfurter_get_historical_rates \<lparr>h_date = js ''2099-01-01'', h_base = Some (js ''usd''),
        h_symbols = None, h_response_format = None\<rparr>) =
     (Responds \<lparr>content_text = Some (js ''Error: Date '' @ [0x27] @ js ''2099-01-01'' @ [0x27] @
          js '' is in the future. For current rates, use frankfurter_get_latest_rates instead.''),
        isError = True\<rparr>, [])"
proof -
  have v: "GetHistoricalRatesSchema \<lparr>h_date = js ''2099-01-01'', h_base = Some (js ''usd''),
       h_symbols = None, h_response_format = None\<rparr> = []"
    by (simp add: GetHistoricalRatesSchema_def date_issues_def optional_code_issues_def
        code_issues_def symbols_issues_def js_def is_digit_def)
  have p: "Date_parse integer_runtime (js ''2099-01-01'') = Some 4070908800000"
    by (simp add: date_eval)
  have d: "Day 1793577600000 < Day 4070908800000"
    by (simp add: Day_def msPerDay_def)
  show ?thesis
    using get_historical_rates_future_date
      [of "\<lparr>h_date = js ''2099-01-01'', h_base = Some (js ''usd''),
           h_symbols = None, h_response_format = None\<rparr>" integer_runtime
          4070908800000 1793577600000 "upstream_status 404 ''Not Found''"] v p d
    by simp
qed

text \<open>
  What holds of claim C7: for two dates that the runtime parses, the time-series tool
  sends a request to the upstream exactly when the start date is before the end date,
  and answers an equal or inverted range with the error-flagged guidance text.
\<close>

lemma get_time_series_parsed_dates:
  assumes "GetTimeSeriesSchema args = []"
    and "Date_parse rt (t_start_date args) = Some s"
    and "Date_parse rt (t_end_date args) = Some e"
  shows "(s \<ge> e \<longrightarrow>
            CallTool rt now http (frankfurter_get_time_series args) =
              (Responds \<lparr>content_text = Some (js ''Error: start_date '' @ [0x27] @ t_start_date args @
                   [0x27] @ js '' must be before end_date '' @ [0x27] @ t_end_date args @ [0x27] @ js ''.''),
                 isError = True\<rparr>, [])) \<and>
         (s < e \<longrightarrow>
            snd (CallTool rt now http (frankfurter_get_time_series args)) =
              [api_request (js ''/'' @ t_start_date args @ js ''..'' @ t_end_date args)
                 (build_params rt (t_base args) (t_symbols args))])"
  using assms
  by (auto simp add: CallTool_def get_time_series_def failure_def Let_def
      split: sum.splits option.splits prod.splits)

text \<open>
  Claim C7 at a start date and an end date that are the same string, a string that the
  schema accepts and that is no calendar date: both dates are invalid, the comparison
  of two invalid dates is false, and the handler sends the request to the upstream.
\<close>

theorem get_time_series_equal_invalid_dates:
  "GetTimeSeriesSchema \<lparr>t_start_date = js ''2024-13-01'', t_end_date = js ''2024-13-01'',
       t_base = None, t_symbols = None, t_response_format = None\<rparr> = [] \<and>
   CallTool integer_runtime 1793577600000 (upstream_status 404 ''Not Found'')
     (frankfurter_get_time_series \<lparr>t_start_date = js ''2024-13-01'', t_end_date = js ''2024-13-01'',
        t_base = None, t_symbols = None, t_response_format = None\<rparr>) =
     (Responds \<lparr>content_text = Some (js ''Error: The requested resource was not found. Please check your date range and currency codes.''),
        isError = True\<rparr>,
      [\<lparr>endpoint = js ''/2024-13-01..2024-13-01'', query = []\<rparr>])"
  by (simp add: GetTimeSeriesSchema_def date_issues_def optional_code_issues_def symbols_issues_def
      CallTool_def get_time_series_def date_eval build_params_def api_request_def
      makeApiRequest_def upstream_status_def handleApiError_def catch_block_def failure_def)



section \<open>Properties of the time-series table\<close>















section \<open>Properties of the conversion tool\<close>

lemma valid_convert_date:
  assumes "ConvertCurrencySchema rt args = []"
  shows "(case c_date args of None \<Rightarrow> js ''/latest'' | Some d \<Rightarrow> if d = [] then js ''/latest'' else js ''/'' @ d) =
         (case c_date args of None \<Rightarrow> js ''/latest'' | Some d \<Rightarrow> js ''/'' @ d)"
  using assms
  by (auto simp add: ConvertCurrencySchema_def date_issues_def split: option.splits if_splits)

lemma SerializeJSONProperty_Number:
  "SerializeJSONProperty rt indent (Number n) =
     Some (case n of NaN \<Rightarrow> js ''null''
                   | Num a \<Rightarrow> if rt_isFinite rt a then rt_toString rt a else js ''null'')"
  by (cases n) simp_all

text \<open>
  Claim C10. For a call of the conversion tool with valid arguments and an upstream
  payload with a \<open>rates\<close> record and a \<open>date\<close>: when the record has the upper-cased
  target code, the response carries the product of the amount and the rate as the
  result, in both formats; when it has not, the Markdown format gives the error-flagged
  response made from the exception of \<open>toFixed\<close>, and the JSON format gives a
  response that is not flagged, without a member \<open>rate\<close> and with \<open>null\<close> as the result.
\<close>

theorem convert_currency_rate_lookup:
  assumes valid: "ConvertCurrencySchema rt args = []"
    and amount: "c_amount args = Num a"
    and upstream: "http (api_request (case c_date args of None \<Rightarrow> js ''/latest'' | Some d \<Rightarrow> js ''/'' @ d)
                      [(js ''from'', Inl (rt_toUpperCase rt (c_from args))),
                       (js ''to'', Inl (rt_toUpperCase rt (c_to args)))]) = Data data"
    and rates: "rates_property data = Some rates"
    and date: "string_property data ''date'' = Some date"
  shows "(\<forall>rate. map_of rates (rt_toUpperCase rt (c_to args)) = Some rate \<longrightarrow>
           (format_or_default (c_response_format args) = JSON \<longrightarrow>
              fst (CallTool rt now http (frankfurter_convert_currency args)) =
                Responds \<lparr>content_text = formatAsJSON rt
                    (Object [(js ''from'', String (rt_toUpperCase rt (c_from args))),
                             (js ''to'', String (rt_toUpperCase rt (c_to args))),
                             (js ''amount'', Number (Num a)),
                             (js ''rate'', Number rate),
                             (js ''result'', Number (multiply rt (Num a) rate)),
                             (js ''date'', String date)]),
                  isError = False\<rparr>) \<and>
           (format_or_default (c_response_format args) = MARKDOWN \<longrightarrow>
              fst (CallTool rt now http (frankfurter_convert_currency args)) =
                Responds \<lparr>content_text = Some
                    (js ''## Currency Conversion\<newline>\<newline>'' @
                     js ''**'' @ rt_toFixed rt 2 a @ js '' '' @ rt_toUpperCase rt (c_from args) @ js '' = '' @
                       number_toFixed rt 2 (multiply rt (Num a) rate) @ js '' '' @
                       rt_toUpperCase rt (c_to args) @ js ''**\<newline>\<newline>'' @
                     js ''- Exchange Rate: '' @ number_toFixed rt 4 rate @ js ''\<newline>'' @
                     js ''- Date: '' @ date @ js ''\<newline>''),
                  isError = False\<rparr>)) \<and>
         (map_of rates (rt_toUpperCase rt (c_to args)) = None \<longrightarrow>
           (format_or_default (c_response_format args) = MARKDOWN \<longrightarrow>
              fst (CallTool rt now http (frankfurter_convert_currency args)) =
                Responds \<lparr>content_text = Some (js ''Error: Cannot read properties of undefined (reading '' @
                     [0x27] @ js ''toFixed'' @ [0x27] @ js '')''),
                  isError = True\<rparr>) \<and>
           (format_or_default (c_response_format args) = JSON \<longrightarrow>
              fst (CallTool rt now http (frankfurter_convert_currency args)) =
                Responds \<lparr>content_text = Some
                    (wrap_block 0x7B 0x7D []
                       [QuoteJSONString (js ''from'') @ js '': '' @ QuoteJSONString (rt_toUpperCase rt (c_from args)),
                        QuoteJSONString (js ''to'') @ js '': '' @ QuoteJSONString (rt_toUpperCase rt (c_to args)),
                        QuoteJSONString (js ''amount'') @ js '': '' @
                          (if rt_isFinite rt a then rt_toString rt a else js ''null''),
                        QuoteJSONString (js ''result'') @ js '': '' @ js ''null'',
                        QuoteJSONString (js ''date'') @ js '': '' @ QuoteJSONString date]),
                  isError = False\<rparr>))"
  using valid amount upstream rates date valid_convert_date [OF valid]
  by (simp add: CallTool_def convert_currency_def makeApiRequest_def Let_def success_def
      formatConversionAsMarkdown_def catch_block_def failure_def TypeError_reading_def
      formatAsJSON_def SerializeJSONProperty_Number js_def)

theorem convert_currency_rate_lookup_witness:
  "ConvertCurrencySchema integer_runtime \<lparr>c_from = js ''eur'', c_to = js ''usd'', c_amount = Num 100, c_date = None, c_response_format = None\<rparr> = [] \<and>
   map_of [(js ''USD'', Num (2 :: int))] (rt_toUpperCase integer_runtime (js ''usd'')) = Some (Num 2) \<and>
   map_of [(js ''GBP'', Num (2 :: int))] (rt_toUpperCase integer_runtime (js ''usd'')) = None \<and>
   fst (CallTool integer_runtime 0 (upstream_data (Object [(js ''amount'', Number (Num 1)), (js ''base'', String (js ''EUR'')), (js ''date'', String (js ''2024-01-02'')), (js ''rates'', Object [(js ''USD'', Number (Num 2))])]))
       (frankfurter_convert_currency \<lparr>c_from = js ''eur'', c_to = js ''usd'', c_amount = Num 100, c_date = None, c_response_format = Some JSON\<rparr>)) =
     Responds \<lparr>content_text = Some (js ''{\<newline>  \"from\": \"EUR\",\<newline>  \"to\": \"USD\",\<newline>  \"amount\": 100,\<newline>  \"rate\": 2,\<newline>  \"result\": 200,\<newline>  \"date\": \"2024-01-02\"\<newline>}''),
       isError = False\<rparr> \<and>
   fst (CallTool integer_runtime 0 (upstream_data (Object [(js ''amount'', Number (Num 1)), (js ''base'', String (js ''EUR'')), (js ''date'', String (js ''2024-01-02'')), (js ''rates'', Object [(js ''USD'', Number (Num 2))])]))
       (frankfurter_convert_currency \<lparr>c_from = js ''eur'', c_to = js ''usd'', c_amount = Num 100, c_date = None, c_response_format = None\<rparr>)) =
     Responds \<lparr>content_text = Some (js ''## Currency Conversion\<newline>\<newline>**100.00 EUR = 200.00 USD**\<newline>\<newline>- Exchange Rate: 2.0000\<newline>- Date: 2024-01-02\<newline>''),
       isError = False\<rparr> \<and>
   fst (CallTool integer_runtime 0 (upstream_data (Object [(js ''amount'', Number (Num 1)), (js ''base'', String (js ''EUR'')), (js ''date'', String (js ''2024-01-02'')), (js ''rates'', Object [(js ''GBP'', Number (Num 2))])]))
       (frankfurter_convert_currency \<lparr>c_from = js ''eur'', c_to = js ''usd'', c_amount = Num 100, c_date = None, c_response_format = None\<rparr>)) =
     Responds \<lparr>content_text = Some (js ''Error: Cannot read properties of undefined (reading '' @ [0x27] @ js ''toFixed'' @ [0x27] @ js '')''),
       isError = True\<rparr> \<and>
   fst (CallTool integer_runtime 0 (upstream_data (Object [(js ''amount'', Number (Num 1)), (js ''base'', String (js ''EUR'')), (js ''date'', String (js ''2024-01-02'')), (js ''rates'', Object [(js ''GBP'', Number (Num 2))])]))
       (frankfurter_convert_currency \<lparr>c_from = js ''eur'', c_to = js ''usd'', c_amount = Num 100, c_date = None, c_response_format = Some JSON\<rparr>)) =
     Responds \<lparr>content_text = Some (js ''{\<newline>  \"from\": \"EUR\",\<newline>  \"to\": \"USD\",\<newline>  \"amount\": 100,\<newline>  \"result\": null,\<newline>  \"date\": \"2024-01-02\"\<newline>}''),
       isError = False\<rparr>"
proof -
  have valid: "ConvertCurrencySchema integer_runtime
      \<lparr>c_from = js ''eur'', c_to = js ''usd'', c_amount = Num 100, c_date = None, c_response_format = f\<rparr> = []" for f
    by (simp add: ConvertCurrencySchema_def code_issues_def amount_issues_def integer_runtime_def)
  have upper: "rt_toUpperCase integer_runtime (js ''usd'') = js ''USD''"
    "rt_toUpperCase integer_runtime (js ''eur'') = js ''EUR''"
    by (simp_all add: integer_runtime_def ascii_upper_def js_def)
  have zeros: "replicate 4 x = [x, x, x, x]" "replicate 2 x = [x, x]" for x :: code_unit
    by (simp_all add: eval_nat_numeral)
  have ops: "rt_toFixed integer_runtime 2 100 = js ''100.00''"
    "rt_toFixed integer_runtime 2 200 = js ''200.00''"
    "rt_toFixed integer_runtime 4 2 = js ''2.0000''"
    "rt_toString integer_runtime 100 = js ''100''"
    "rt_toString integer_runtime 200 = js ''200''"
    "rt_toString integer_runtime 2 = js ''2''"
    "rt_multiply integer_runtime 100 2 = Num 200"
    by (simp_all add: integer_runtime_def show_int_def show_nat.simps digit_unit_def js_def zeros)
  have finite: "rt_isFinite integer_runtime x" for x
    by (simp add: integer_runtime_def)
  have quoted: "QuoteJSONString (js ''from'') = js ''\"from\"''" "QuoteJSONString (js ''to'') = js ''\"to\"''"
    "QuoteJSONString (js ''amount'') = js ''\"amount\"''" "QuoteJSONString (js ''rate'') = js ''\"rate\"''"
    "QuoteJSONString (js ''result'') = js ''\"result\"''" "QuoteJSONString (js ''date'') = js ''\"date\"''"
    "QuoteJSONString (js ''EUR'') = js ''\"EUR\"''" "QuoteJSONString (js ''USD'') = js ''\"USD\"''"
    "QuoteJSONString (js ''2024-01-02'') = js ''\"2024-01-02\"''"
    by (simp_all add: QuoteJSONString_def quote_unit_def is_high_surrogate_def is_low_surrogate_def js_def)
  have payload: "rates_property (Object [(js ''amount'', Number (Num 1)), (js ''base'', String (js ''EUR'')),
        (js ''date'', String (js ''2024-01-02'')), (js ''rates'', Object [(k, Number (Num (2 :: int)))])]) =
      Some [(k, Num 2)]"
    "string_property (Object [(js ''amount'', Number (Num 1)), (js ''base'', String (js ''EUR'')),
        (js ''date'', String (js ''2024-01-02'')), (js ''rates'', Object [(k, Number (Num (2 :: int)))])]) ''date'' =
      Some (js ''2024-01-02'')" for k
    by (simp_all add: rates_property_def string_property_def property_def number_record_def
        number_entry_def js_def)
  have present: "map_of [(js ''USD'', Num (2 :: int))] (js ''USD'') = Some (Num 2)"
    and missing: "map_of [(js ''GBP'', Num (2 :: int))] (js ''USD'') = None"
    by (simp_all add: js_def)
  show ?thesis
    using convert_currency_rate_lookup [where rt = integer_runtime and a = 100 and now = 0
        and date = "js ''2024-01-02''" and rates = "[(js ''USD'', Num 2)]"
        and args = "\<lparr>c_from = js ''eur'', c_to = js ''usd'', c_amount = Num 100, c_date = None, c_response_format = Some JSON\<rparr>"
        and data = "Object [(js ''amount'', Number (Num 1)), (js ''base'', String (js ''EUR'')), (js ''date'', String (js ''2024-01-02'')), (js ''rates'', Object [(js ''USD'', Number (Num 2))])]"
        and http = "upstream_data (Object [(js ''amount'', Number (Num 1)), (js ''base'', String (js ''EUR'')), (js ''date'', String (js ''2024-01-02'')), (js ''rates'', Object [(js ''USD'', Number (Num 2))])])"]
      convert_currency_rate_lookup [where rt = integer_runtime and a = 100 and now = 0
        and date = "js ''2024-01-02''" and rates = "[(js ''USD'', Num 2)]"
        and args = "\<lparr>c_from = js ''eur'', c_to = js ''usd'', c_amount = Num 100, c_date = None, c_response_format = None\<rparr>"
        and data = "Object [(js ''amount'', Number (Num 1)), (js ''base'', String (js ''EUR'')), (js ''date'', String (js ''2024-01-02'')), (js ''rates'', Object [(js ''USD'', Number (Num 2))])]"
        and http = "upstream_data (Object [(js ''amount'', Number (Num 1)), (js ''base'', String (js ''EUR'')), (js ''date'', String (js ''2024-01-02'')), (js ''rates'', Object [(js ''USD'', Number (Num 2))])])"]
      convert_currency_rate_lookup [where rt = integer_runtime and a = 100 and now = 0
        and date = "js ''2024-01-02''" and rates = "[(js ''GBP'', Num 2)]"
        and args = "\<lparr>c_from = js ''eur'', c_to = js ''usd'', c_amount = Num 100, c_date = None, c_response_format = None\<rparr>"
        and data = "Object [(js ''amount'', Number (Num 1)), (js ''base'', String (js ''EUR'')), (js ''date'', String (js ''2024-01-02'')), (js ''rates'', Object [(js ''GBP'', Number (Num 2))])]"
        and http = "upstream_data (Object [(js ''amount'', Number (Num 1)), (js ''base'', String (js ''EUR'')), (js ''date'', String (js ''2024-01-02'')), (js ''rates'', Object [(js ''GBP'', Number (Num 2))])])"]
      convert_currency_rate_lookup [where rt = integer_runtime and a = 100 and now = 0
        and date = "js ''2024-01-02''" and rates = "[(js ''GBP'', Num 2)]"
        and args = "\<lparr>c_from = js ''eur'', c_to = js ''usd'', c_amount = Num 100, c_date = None, c_response_format = Some JSON\<rparr>"
        and data = "Object [(js ''amount'', Number (Num 1)), (js ''base'', String (js ''EUR'')), (js ''date'', String (js ''2024-01-02'')), (js ''rates'', Object [(js ''GBP'', Number (Num 2))])]"
        and http = "upstream_data (Object [(js ''amount'', Number (Num 1)), (js ''base'', String (js ''EUR'')), (js ''date'', String (js ''2024-01-02'')), (js ''rates'', Object [(js ''GBP'', Number (Num 2))])])"]
    by (simp add: valid upper present missing payload upstream_data_def format_or_default_def
        ops finite quoted formatAsJSON_def wrap_block_def gap_def)
       (simp add: js_def)
qed



section \<open>Where truncation is applied\<close>

text \<open>
  Four of the five handlers put the rendered content into the response as it is; only
  the time-series handler calls \<open>formatResponse\<close>, the one caller of the truncation.
\<close>

lemma get_latest_rates_returns_rendering:
  assumes "GetLatestRatesSchema args = []"
    and "http (api_request (js ''/latest'') (build_params rt (l_base args) (l_symbols args))) = Data data"
  shows "fst (CallTool rt now http (frankfurter_get_latest_rates args)) =
           rates_content rt (format_or_default (l_response_format args)) data"
  using assms by (simp add: CallTool_def get_latest_rates_def makeApiRequest_def)

lemma list_currencies_returns_rendering:
  assumes "http (api_request (js ''/currencies'') []) = Data data"
  shows "fst (CallTool rt now http (frankfurter_list_currencies args)) =
           (if format_or_default (k_response_format args) = JSON
            then Responds (success (formatAsJSON rt data))
            else case string_record data of
                   Some currencies \<Rightarrow> Responds (success (Some (formatCurrenciesAsMarkdown rt currencies)))
                 | None \<Rightarrow> PayloadOfOtherType)"
  using assms by (simp add: CallTool_def list_currencies_def makeApiRequest_def split: option.splits)

text \<open>
  Claim C1 at a call of the currency list whose upstream catalog has one long name: the
  text of the response is the whole rendered table, 30093 code units without a notice,
  and is not what the truncation step makes of that table.
\<close>

theorem list_currencies_exceeds_limit:
  "CallTool integer_runtime 0
     (upstream_data (Object [(js ''XXX'', String (replicate 30000 0x61))]))
     (frankfurter_list_currencies \<lparr>k_response_format = None\<rparr>) =
     (Responds \<lparr>content_text = Some
          (js ''## Available Currencies\<newline>\<newline>| Code | Name |\<newline>|------|------|\<newline>| XXX | '' @
           replicate 30000 0x61 @ js '' |\<newline>\<newline>**Total:** 1 currencies\<newline>''),
        isError = False\<rparr>,
      [\<lparr>endpoint = js ''/currencies'', query = []\<rparr>]) \<and>
   length (js ''## Available Currencies\<newline>\<newline>| Code | Name |\<newline>|------|------|\<newline>| XXX | '' @
           replicate 30000 (0x61 :: code_unit) @ js '' |\<newline>\<newline>**Total:** 1 currencies\<newline>'') = 30093 \<and>
   CHARACTER_LIMIT < 30093 \<and>
   length (fst (truncateIfNeeded
     (js ''## Available Currencies\<newline>\<newline>| Code | Name |\<newline>|------|------|\<newline>| XXX | '' @
      replicate 30000 (0x61 :: code_unit) @ js '' |\<newline>\<newline>**Total:** 1 currencies\<newline>'') MARKDOWN)) = 25199"
proof -
  have one: "show_nat (Suc 0) = js ''1''"
    by (simp add: show_nat.simps digit_unit_def js_def)
  have call: "CallTool integer_runtime 0
     (upstream_data (Object [(js ''XXX'', String (replicate 30000 0x61))]))
     (frankfurter_list_currencies \<lparr>k_response_format = None\<rparr>) =
     (Responds \<lparr>content_text = Some
          (js ''## Available Currencies\<newline>\<newline>| Code | Name |\<newline>|------|------|\<newline>| XXX | '' @
           replicate 30000 0x61 @ js '' |\<newline>\<newline>**Total:** 1 currencies\<newline>''),
        isError = False\<rparr>,
      [\<lparr>endpoint = js ''/currencies'', query = []\<rparr>])"
    by (simp add: CallTool_def list_currencies_def makeApiRequest_def upstream_data_def
        api_request_def format_or_default_def string_record_def string_entry_def
        formatCurrenciesAsMarkdown_def sort_by_def currencies_row_def success_def one)
       (simp add: js_def)
  have len: "length (js ''## Available Currencies\<newline>\<newline>| Code | Name |\<newline>|------|------|\<newline>| XXX | '' @
           replicate 30000 (0x61 :: code_unit) @ js '' |\<newline>\<newline>**Total:** 1 currencies\<newline>'') = 30093"
    by simp
  have cut: "length (fst (truncateIfNeeded
     (js ''## Available Currencies\<newline>\<newline>| Code | Name |\<newline>|------|------|\<newline>| XXX | '' @
      replicate 30000 (0x61 :: code_unit) @ js '' |\<newline>\<newline>**Total:** 1 currencies\<newline>'') MARKDOWN)) = 25199"
    by (simp add: truncateIfNeeded_def CHARACTER_LIMIT_def length_truncationMessage_MARKDOWN)
  show ?thesis
    using call len cut by (simp add: CHARACTER_LIMIT_def)
qed



section \<open>Properties of the JSON rendering\<close>

lemma unat_digit_48: "d < 16 \<Longrightarrow> unat (of_nat (48 + d) :: code_unit) = 48 + d"
  by (simp only: unat_of_nat) simp

lemma unat_digit_87: "d < 16 \<Longrightarrow> unat (of_nat (87 + d) :: code_unit) = 87 + d"
  by (simp only: unat_of_nat) simp

lemma hex_value_hex_digit: "d < 16 \<Longrightarrow> hex_value (hex_digit d) = Some d"
  unfolding hex_value_def hex_digit_def word_le_nat_alt
  by (simp only: unat_digit_48 unat_digit_87 split: if_splits) simp

lemma hex_split:
  "4096 * ((n::nat) div 4096) + 256 * (n div 256 mod 16) + 16 * (n div 16 mod 16) + n mod 16 = n"
proof -
  have a: "n mod 256 = 16 * (n div 16 mod 16) + n mod 16"
    using mod_mult2_eq [of n 16 16] by simp
  have b: "n mod 4096 = 256 * (n div 256 mod 16) + n mod 256"
    using mod_mult2_eq [of n 256 16] by simp
  have "n = 4096 * (n div 4096) + n mod 4096" by simp
  then show ?thesis using a b by linarith
qed

lemma hex4_UnicodeEscape:
  "hex4 (hex_digit (unat c div 4096)) (hex_digit (unat c div 256 mod 16))
        (hex_digit (unat c div 16 mod 16)) (hex_digit (unat c mod 16)) = Some c"
proof -
  have "unat c < 65536"
    using unsigned_less [of c, where 'a = nat] by simp
  then have "unat c div 4096 < 16" by simp
  then have "hex4 (hex_digit (unat c div 4096)) (hex_digit (unat c div 256 mod 16))
        (hex_digit (unat c div 16 mod 16)) (hex_digit (unat c mod 16)) =
      Some (of_nat (4096 * (unat c div 4096) + 256 * (unat c div 256 mod 16) +
                    16 * (unat c div 16 mod 16) + unat c mod 16))"
    by (simp add: hex4_def hex_value_hex_digit)
  then show ?thesis
    by (simp only: hex_split) simp
qed

lemma parse_chars_UnicodeEscape:
  "parse_chars (UnicodeEscape c @ r) = consed c (parse_chars r)"
  by (simp add: UnicodeEscape_def hex4_UnicodeEscape)

lemma parse_chars_quote_unit:
  "parse_chars (quote_unit c @ r) = consed c (parse_chars r)"
proof (cases "c = 0x08 \<or> c = 0x09 \<or> c = 0x0A \<or> c = 0x0C \<or> c = 0x0D \<or> c = 0x22 \<or> c = 0x5C")
  case True
  then show ?thesis
    by (auto simp add: quote_unit_def unescape_def)
next
  case False
  then show ?thesis
    by (simp add: quote_unit_def parse_chars_UnicodeEscape)
qed

lemma parse_chars_surrogate:
  "is_high_surrogate c \<or> is_low_surrogate c \<Longrightarrow> parse_chars (c # r) = consed c (parse_chars r)"
  by (auto simp add: is_high_surrogate_def is_low_surrogate_def word_le_nat_alt word_less_nat_alt)

lemma consed_consed:
  "consed c (map_option (\<lambda>(x, rest). (s @ x, rest)) p) = map_option (\<lambda>(x, rest). ((c # s) @ x, rest)) p"
  by (cases p) (auto simp add: consed_def)

lemma parse_chars_quote_units:
  "parse_chars (quote_units s @ r) = map_option (\<lambda>(x, rest). (s @ x, rest)) (parse_chars r)"
proof (induction s rule: quote_units.induct)
  case 1
  show ?case by (simp add: option.map_ident)
next
  case (2 c)
  show ?case
    by (cases "parse_chars r")
       (auto simp add: parse_chars_UnicodeEscape parse_chars_quote_unit consed_def
             simp del: parse_chars.simps)
next
  case (3 c d cs)
  show ?case
  proof (cases "is_high_surrogate c \<and> is_low_surrogate d")
    case True
    have "parse_chars (quote_units (c # d # cs) @ r) = consed c (consed d (parse_chars (quote_units cs @ r)))"
      using True by (simp add: parse_chars_surrogate del: parse_chars.simps)
    also have "\<dots> = consed c (consed d (map_option (\<lambda>(x, rest). (cs @ x, rest)) (parse_chars r)))"
      using 3(1) True by (simp del: parse_chars.simps)
    also have "\<dots> = map_option (\<lambda>(x, rest). ((c # d # cs) @ x, rest)) (parse_chars r)"
      by (cases "parse_chars r") (auto simp add: consed_def)
    finally show ?thesis .
  next
    case False
    have "parse_chars (quote_units (c # d # cs) @ r) = consed c (parse_chars (quote_units (d # cs) @ r))"
      using False
      by (auto simp add: parse_chars_UnicodeEscape parse_chars_quote_unit
               simp del: parse_chars.simps quote_units.simps(2))
    also have "\<dots> = consed c (map_option (\<lambda>(x, rest). ((d # cs) @ x, rest)) (parse_chars r))"
      using 3(2) [OF False] 3(3) [OF False] by (cases "is_high_surrogate c \<or> is_low_surrogate c") simp_all
    also have "\<dots> = map_option (\<lambda>(x, rest). ((c # d # cs) @ x, rest)) (parse_chars r)"
      by (cases "parse_chars r") (auto simp add: consed_def)
    finally show ?thesis .
  qed
qed

lemma parse_chars_QuoteJSONString:
  "parse_chars (tl (QuoteJSONString s) @ rest) = Some (s, rest)"
  by (simp add: QuoteJSONString_def parse_chars_quote_units)


lemma representable_text:
  "representable rt pn v \<Longrightarrow> SerializeJSONProperty rt indent v = Some (text_of rt indent v)"
  by (cases v) (auto simp add: text_of_def SerializeJSONProperty_Number)

lemma representable_elements:
  "\<forall>x \<in> set xs. representable rt pn x \<Longrightarrow>
   SerializeJSONElements rt indent xs = map (text_of rt indent) xs"
proof (induction xs)
  case Nil
  show ?case by simp
next
  case (Cons x xs)
  then have "SerializeJSONProperty rt indent x = Some (text_of rt indent x)"
    using representable_text [of rt pn x indent] by simp
  then show ?case using Cons by simp
qed

lemma representable_members:
  "\<forall>kv \<in> set kvs. representable rt pn (snd kv) \<Longrightarrow>
   SerializeJSONMembers rt indent kvs =
     map (\<lambda>kv. QuoteJSONString (fst kv) @ js '': '' @ text_of rt indent (snd kv)) kvs"
proof (induction kvs)
  case Nil
  show ?case by simp
next
  case (Cons kv kvs)
  then have "SerializeJSONProperty rt indent (snd kv) = Some (text_of rt indent (snd kv))"
    using representable_text [of rt pn "snd kv" indent] by simp
  then show ?case using Cons by (cases kv) simp
qed

lemma skip_ws_append: "\<forall>c \<in> set w. is_ws c \<Longrightarrow> skip_ws (w @ s) = skip_ws s"
  by (simp add: skip_ws_def dropWhile_append)

lemma skip_ws_Cons: "\<not> is_ws c \<Longrightarrow> skip_ws (c # s) = c # s"
  by (simp add: skip_ws_def)

lemma parse_value_ws: "\<forall>c \<in> set w. is_ws c \<Longrightarrow> parse_value pn (w @ s) = parse_value pn s"
  by (simp add: parse_value.simps [of pn "w @ s"] parse_value.simps [of pn s] skip_ws_append)

lemma number_token:
  assumes "list_all is_number_char t" and "rest_ok rest"
  shows "takeWhile is_number_char (t @ rest) = t" and "dropWhile is_number_char (t @ rest) = rest"
proof -
  have "takeWhile is_number_char rest = []" "dropWhile is_number_char rest = rest"
    using assms(2) by (cases rest; simp add: rest_ok_def)+
  then show "takeWhile is_number_char (t @ rest) = t" "dropWhile is_number_char (t @ rest) = rest"
    using assms(1) by (simp_all add: list_all_iff)
qed


lemma number_char_plain:
  "is_number_char c \<Longrightarrow> \<not> is_ws c \<and> c \<noteq> 0x22 \<and> c \<noteq> 0x5B \<and> c \<noteq> 0x7B \<and> c \<noteq> 0x74 \<and> c \<noteq> 0x66 \<and> c \<noteq> 0x6E"
  by (auto simp add: is_number_char_def is_digit_def is_ws_def word_le_nat_alt)

lemma separators_rest_ok: "rest_ok (0x2C # s)" "rest_ok (0x0A # s)" "rest_ok []"
  by (simp_all add: rest_ok_def is_number_char_def is_digit_def word_le_nat_alt)

lemma text_head:
  assumes "representable rt pn v"
  shows "\<exists>c t. text_of rt indent v = c # t \<and> \<not> is_ws c \<and> c \<noteq> 0x5D \<and> c \<noteq> 0x7D"
proof (cases v)
  case (Number n)
  with assms obtain a where a: "n = Num a" "reads_back rt pn a"
    by (cases n) auto
  then obtain c t where ct: "rt_toString rt a = c # t" "is_number_char c"
    by (cases "rt_toString rt a") (auto simp add: reads_back_def)
  then have "\<not> is_ws c \<and> c \<noteq> 0x5D \<and> c \<noteq> 0x7D"
    by (auto simp add: is_number_char_def is_digit_def is_ws_def word_le_nat_alt)
  then show ?thesis
    using Number a ct by (simp add: text_of_def reads_back_def)
qed (use assms in \<open>auto simp add: text_of_def js_def is_ws_def QuoteJSONString_def wrap_block_def\<close>)

lemma parse_elements_printed:
  assumes step: "\<And>x rest. x \<in> set xs \<Longrightarrow> rest_ok rest \<Longrightarrow>
                   parse_value pn (text_of rt ind x @ rest) = Some (x, rest)"
    and heads: "\<And>x. x \<in> set xs \<Longrightarrow> text_of rt ind x \<noteq> []"
    and "xs \<noteq> []" and "\<forall>c \<in> set w. is_ws c" and "\<forall>c \<in> set ind. is_ws c"
    and "\<forall>c \<in> set stepback. is_ws c"
  shows "parse_elements pn
           (w @ join (js '','' @ [0x0A] @ ind) (map (text_of rt ind) xs) @
            [0x0A] @ stepback @ [0x5D] @ rest) = Some (xs, rest)"
  using assms
proof (induction xs arbitrary: w)
  case Nil
  then show ?case by simp
next
  case (Cons x xs)
  show ?case
  proof (cases xs)
    case Nil
    define R where "R = 0x0A # stepback @ 0x5D # rest"
    define S where "S = w @ text_of rt ind x @ R"
    have v: "parse_value pn S = Some (x, R)"
      unfolding S_def using Cons.prems(1) [of x R] Cons.prems(4)
      by (simp add: parse_value_ws R_def separators_rest_ok)
    have len: "length R < length S"
      unfolding S_def using Cons.prems(2) [of x] by simp
    have skip: "skip_ws R = 0x5D # rest"
      unfolding R_def using Cons.prems(6) skip_ws_append [of "0x0A # stepback" "0x5D # rest"]
      by (simp add: skip_ws_Cons is_ws_def)
    have "parse_elements pn S = Some ([x], rest)"
      by (simp add: parse_elements.simps [of pn S] v len skip)
    moreover have "w @ join (js '','' @ [0x0A] @ ind) (map (text_of rt ind) (x # xs)) @
            [0x0A] @ stepback @ [0x5D] @ rest = S"
      using Nil by (simp add: S_def R_def)
    ultimately show ?thesis using Nil by simp
  next
    case (Cons y ys)
    define T where "T = (0x0A # ind) @ join (js '','' @ [0x0A] @ ind) (map (text_of rt ind) (y # ys)) @
                 [0x0A] @ stepback @ [0x5D] @ rest"
    define R where "R = 0x2C # T"
    define S where "S = w @ text_of rt ind x @ R"
    have v: "parse_value pn S = Some (x, R)"
      unfolding S_def using Cons.prems(1) [of x R] Cons.prems(4)
      by (simp add: parse_value_ws R_def separators_rest_ok)
    have len: "length R < length S"
      unfolding S_def using Cons.prems(2) [of x] by simp
    have skip: "skip_ws R = 0x2C # T"
      unfolding R_def by (simp add: skip_ws_Cons is_ws_def)
    have more: "parse_elements pn T = Some (y # ys, rest)"
      unfolding T_def using Cons.IH [of "0x0A # ind"] Cons.prems Cons by (simp add: is_ws_def)
    have "parse_elements pn S = Some (x # y # ys, rest)"
      by (simp add: parse_elements.simps [of pn S] v len skip more consed_def)
    moreover have "w @ join (js '','' @ [0x0A] @ ind) (map (text_of rt ind) (x # xs)) @
            [0x0A] @ stepback @ [0x5D] @ rest = S"
      using Cons by (simp add: S_def R_def T_def js_def)
    ultimately show ?thesis using Cons by simp
  qed
qed


lemma parse_members_printed:
  assumes step: "\<And>kv rest. kv \<in> set kvs \<Longrightarrow> rest_ok rest \<Longrightarrow>
                   parse_value pn (text_of rt ind (snd kv) @ rest) = Some (snd kv, rest)"
    and heads: "\<And>kv. kv \<in> set kvs \<Longrightarrow> text_of rt ind (snd kv) \<noteq> []"
    and "kvs \<noteq> []" and "\<forall>c \<in> set w. is_ws c" and "\<forall>c \<in> set ind. is_ws c"
    and "\<forall>c \<in> set stepback. is_ws c"
  shows "parse_members pn
           (w @ join (js '','' @ [0x0A] @ ind)
                  (map (\<lambda>kv. QuoteJSONString (fst kv) @ js '': '' @ text_of rt ind (snd kv)) kvs) @
            [0x0A] @ stepback @ [0x7D] @ rest) = Some (kvs, rest)"
  using assms
proof (induction kvs arbitrary: w)
  case Nil
  then show ?case by simp
next
  case (Cons kv kvs)
  obtain k v where kv: "kv = (k, v)" by (cases kv)
  have member:
    "parse_members pn (w @ QuoteJSONString k @ js '': '' @ text_of rt ind v @ R) =
       (case skip_ws R of
          [] \<Rightarrow> None
        | c # r3 \<Rightarrow> if c = 0x2C then consed (k, v) (parse_members pn r3)
                    else if c = 0x7D then Some ([(k, v)], r3) else None)"
    if "rest_ok R" for R
  proof -
    define X where "X = js '': '' @ text_of rt ind v @ R"
    define Q where "Q = tl (QuoteJSONString k) @ X"
    define S where "S = w @ QuoteJSONString k @ js '': '' @ text_of rt ind v @ R"
    define R1 where "R1 = 0x20 # text_of rt ind v @ R"
    have s: "skip_ws S = 0x22 # Q"
      unfolding S_def Q_def X_def using Cons.prems(4)
      by (simp add: skip_ws_append QuoteJSONString_def skip_ws_Cons is_ws_def)
    have q: "parse_chars Q = Some (k, X)"
      unfolding Q_def by (rule parse_chars_QuoteJSONString)
    have x: "skip_ws X = 0x3A # R1"
      unfolding X_def R1_def by (simp add: js_def skip_ws_Cons is_ws_def)
    have v: "parse_value pn R1 = Some (v, R)"
      unfolding R1_def
      using Cons.prems(1) [of kv R] that parse_value_ws [of "[0x20]" pn "text_of rt ind v @ R"]
      by (simp add: kv is_ws_def)
    have len: "length R < length R1"
      unfolding R1_def by simp
    show ?thesis
      unfolding S_def [symmetric]
      by (simp add: parse_members.simps [of pn S] s q x v len)
  qed
  show ?case
  proof (cases kvs)
    case Nil
    define R where "R = 0x0A # stepback @ 0x7D # rest"
    have skip: "skip_ws R = 0x7D # rest"
      unfolding R_def using Cons.prems(6) skip_ws_append [of "0x0A # stepback" "0x7D # rest"]
      by (simp add: skip_ws_Cons is_ws_def)
    have ok: "rest_ok R"
      unfolding R_def by (rule separators_rest_ok)
    have "parse_members pn (w @ QuoteJSONString k @ js '': '' @ text_of rt ind v @ R) = Some ([(k, v)], rest)"
      using member [OF ok] by (simp add: skip)
    then show ?thesis using Nil kv by (simp add: R_def)
  next
    case (Cons kv' kvs')
    define T where "T = (0x0A # ind) @ join (js '','' @ [0x0A] @ ind)
                  (map (\<lambda>kv. QuoteJSONString (fst kv) @ js '': '' @ text_of rt ind (snd kv)) (kv' # kvs')) @
                 [0x0A] @ stepback @ [0x7D] @ rest"
    define R where "R = 0x2C # T"
    have skip: "skip_ws R = 0x2C # T"
      unfolding R_def by (simp add: skip_ws_Cons is_ws_def)
    have more: "parse_members pn T = Some (kv' # kvs', rest)"
      unfolding T_def using Cons.IH [of "0x0A # ind"] Cons.prems Cons by (simp add: is_ws_def)
    have ok: "rest_ok R"
      unfolding R_def by (rule separators_rest_ok)
    have "parse_members pn (w @ QuoteJSONString k @ js '': '' @ text_of rt ind v @ R) =
        Some ((k, v) # kv' # kvs', rest)"
      using member [OF ok] by (simp add: skip more consed_def)
    moreover have "w @ join (js '','' @ [0x0A] @ ind)
                  (map (\<lambda>kv. QuoteJSONString (fst kv) @ js '': '' @ text_of rt ind (snd kv)) (kv # kvs)) @
            [0x0A] @ stepback @ [0x7D] @ rest =
          w @ QuoteJSONString k @ js '': '' @ text_of rt ind v @ R"
      using Cons kv by (simp add: R_def T_def js_def)
    ultimately show ?thesis using Cons kv by simp
  qed
qed


lemma put_member_new: "k \<notin> fst ` set acc \<Longrightarrow> put_member (k, v) acc = acc @ [(k, v)]"
  by (induction acc) auto

lemma put_members_distinct:
  "distinct (map fst (acc @ kvs)) \<Longrightarrow> foldl (\<lambda>acc kv. put_member kv acc) acc kvs = acc @ kvs"
proof (induction kvs arbitrary: acc)
  case Nil
  show ?case by simp
next
  case (Cons kv kvs)
  obtain k v where kv: "kv = (k, v)" by (cases kv)
  have "put_member kv acc = acc @ [kv]"
    using Cons.prems unfolding kv by (intro put_member_new) auto
  then show ?case
    using Cons.IH [of "acc @ [kv]"] Cons.prems by simp
qed

lemma object_of_members_representable:
  "representable rt pn (Object kvs) \<Longrightarrow> object_of_members kvs = kvs"
  using put_members_distinct [of "[]" kvs] by (simp add: object_of_members_def)

lemma gap_ws: "\<forall>c \<in> set ind. is_ws c \<Longrightarrow> \<forall>c \<in> set (ind @ gap). is_ws c"
  by (auto simp add: gap_def js_def is_ws_def)

lemma parse_value_printed:
  assumes "representable rt pn v" and "\<forall>c \<in> set ind. is_ws c" and "rest_ok rest"
  shows "parse_value pn (text_of rt ind v @ rest) = Some (v, rest)"
  using assms
proof (induction v arbitrary: ind rest)
  case Undefined
  then show ?case by simp
next
  case Null
  show ?case
    by (subst parse_value.simps) (simp add: text_of_def js_def skip_ws_Cons is_ws_def)
next
  case (Bool b)
  show ?case
    by (subst parse_value.simps) (simp add: text_of_def js_def skip_ws_Cons is_ws_def)
next
  case (Number n)
  then obtain a where a: "n = Num a" "reads_back rt pn a"
    by (cases n) auto
  then obtain c t where ct: "rt_toString rt a = c # t" "list_all is_number_char (c # t)"
    by (cases "rt_toString rt a") (auto simp add: reads_back_def)
  have tok: "takeWhile is_number_char ((c # t) @ rest) = c # t"
      "dropWhile is_number_char ((c # t) @ rest) = rest"
    using number_token [OF ct(2) Number.prems(3)] by simp_all
  have c: "\<not> is_ws c" "c \<noteq> 0x22" "c \<noteq> 0x5B" "c \<noteq> 0x7B" "c \<noteq> 0x74" "c \<noteq> 0x66" "c \<noteq> 0x6E"
    using ct(2) number_char_plain [of c] by simp_all
  have shape: "text_of rt ind (Number n) = c # t"
    using a ct by (simp add: text_of_def reads_back_def)
  have pn: "pn (c # t) = Some a"
    using a ct by (simp add: reads_back_def)
  show ?case
    unfolding shape using tok c pn a(1)
    by (subst parse_value.simps) (simp add: skip_ws_Cons js_def)
next
  case (String str)
  have "text_of rt ind (String str) @ rest = 0x22 # (tl (QuoteJSONString str) @ rest)"
    by (simp add: text_of_def QuoteJSONString_def)
  then show ?case
    by (subst parse_value.simps) (simp add: skip_ws_Cons is_ws_def parse_chars_QuoteJSONString)
next
  case (Array xs)
  show ?case
  proof (cases xs)
    case Nil
    then show ?thesis
      by (subst parse_value.simps)
         (simp add: text_of_def wrap_block_def skip_ws_Cons is_ws_def)
  next
    case (Cons y ys)
    have all: "\<forall>x \<in> set xs. representable rt pn x"
      using Array.prems(1) by simp
    have ws: "\<forall>c \<in> set (ind @ gap). is_ws c"
      using Array.prems(2) by (rule gap_ws)
    define E where "E = join (js '','' @ [0x0A] @ (ind @ gap)) (map (text_of rt (ind @ gap)) xs) @
            [0x0A] @ ind @ [0x5D] @ rest"
    define C where "C = (0x0A # ind @ gap) @ E"
    have shape: "text_of rt ind (Array xs) @ rest = 0x5B # C"
      using Cons representable_elements [OF all, of "ind @ gap"]
      by (simp add: text_of_def wrap_block_def C_def E_def)
    have elems: "parse_elements pn C = Some (xs, rest)"
      unfolding C_def E_def
    proof (rule parse_elements_printed)
      show "parse_value pn (text_of rt (ind @ gap) x @ r) = Some (x, r)"
        if "x \<in> set xs" "rest_ok r" for x r
        using Array.IH [OF that(1) _ ws that(2)] all that(1) by simp
      show "text_of rt (ind @ gap) x \<noteq> []" if "x \<in> set xs" for x
        using text_head [of rt pn x "ind @ gap"] all that by auto
      show "xs \<noteq> []" using Cons by simp
      show "\<forall>c \<in> set (0x0A # ind @ gap). is_ws c" using ws by (simp add: is_ws_def)
      show "\<forall>c \<in> set (ind @ gap). is_ws c" by (rule ws)
      show "\<forall>c \<in> set ind. is_ws c" by (rule Array.prems(2))
    qed
    obtain c t where head: "text_of rt (ind @ gap) y = c # t" "\<not> is_ws c" "c \<noteq> 0x5D"
      using text_head [of rt pn y "ind @ gap"] all Cons by auto
    have wsw: "\<forall>c \<in> set (0x0A # ind @ gap). is_ws c"
      using ws by (simp add: is_ws_def)
    obtain ds where "E = c # ds"
      unfolding E_def using Cons head(1) by (cases ys) simp_all
    then have skip: "skip_ws C = c # ds"
      unfolding C_def using skip_ws_append [OF wsw, of E] head(2) by (simp add: skip_ws_Cons)
    show ?thesis
      unfolding shape using elems skip head(3)
      by (subst parse_value.simps) (simp add: skip_ws_Cons is_ws_def)
  qed
next
  case (Object kvs)
  show ?case
  proof (cases kvs)
    case Nil
    then show ?thesis
      by (subst parse_value.simps)
         (simp add: text_of_def wrap_block_def skip_ws_Cons is_ws_def object_of_members_def
                    own_property_order_def)
  next
    case (Cons kv' kvs')
    have all: "\<forall>kv \<in> set kvs. representable rt pn (snd kv)"
      using Object.prems(1) by simp
    have ws: "\<forall>c \<in> set (ind @ gap). is_ws c"
      using Object.prems(2) by (rule gap_ws)
    define E where "E = join (js '','' @ [0x0A] @ (ind @ gap))
              (map (\<lambda>kv. QuoteJSONString (fst kv) @ js '': '' @ text_of rt (ind @ gap) (snd kv)) kvs) @
            [0x0A] @ ind @ [0x7D] @ rest"
    define C where "C = (0x0A # ind @ gap) @ E"
    have shape: "text_of rt ind (Object kvs) @ rest = 0x7B # C"
      using Cons representable_members [OF all, of "ind @ gap"]
      by (simp add: text_of_def wrap_block_def C_def E_def)
    have members: "parse_members pn C = Some (kvs, rest)"
      unfolding C_def E_def
    proof (rule parse_members_printed)
      show "parse_value pn (text_of rt (ind @ gap) (snd kv) @ r) = Some (snd kv, r)"
        if "kv \<in> set kvs" "rest_ok r" for kv r
        using Object.IH [of kv "snd kv" "ind @ gap" r] ws all that by (cases kv) auto
      show "text_of rt (ind @ gap) (snd kv) \<noteq> []" if "kv \<in> set kvs" for kv
        using text_head [of rt pn "snd kv" "ind @ gap"] all that by auto
      show "kvs \<noteq> []" using Cons by simp
      show "\<forall>c \<in> set (0x0A # ind @ gap). is_ws c" using ws by (simp add: is_ws_def)
      show "\<forall>c \<in> set (ind @ gap). is_ws c" by (rule ws)
      show "\<forall>c \<in> set ind. is_ws c" by (rule Object.prems(2))
    qed
    have wsw: "\<forall>c \<in> set (0x0A # ind @ gap). is_ws c"
      using ws by (simp add: is_ws_def)
    obtain ds where "E = 0x22 # ds"
      unfolding E_def using Cons by (cases kvs') (simp_all add: QuoteJSONString_def)
    then have skip: "skip_ws C = 0x22 # ds"
      unfolding C_def using skip_ws_append [OF wsw, of E] by (simp add: skip_ws_Cons is_ws_def)
    show ?thesis
      unfolding shape using members skip object_of_members_representable [OF Object.prems(1)]
      by (subst parse_value.simps) (simp add: skip_ws_Cons is_ws_def)
  qed
qed



lemma JSON_parse_printed:
  assumes "representable rt pn v"
  shows "formatAsJSON rt v = Some (text_of rt [] v)" and "JSON_parse pn (text_of rt [] v) = Some v"
proof -
  show "formatAsJSON rt v = Some (text_of rt [] v)"
    using representable_text [OF assms, of "[]"] by (simp add: formatAsJSON_def)
  have "parse_value pn (text_of rt [] v @ []) = Some (v, [])"
    using assms by (intro parse_value_printed) (simp_all add: separators_rest_ok)
  then show "JSON_parse pn (text_of rt [] v) = Some v"
    by (simp add: JSON_parse_def skip_ws_def)
qed

lemmas json_eval =
  formatAsJSON_def wrap_block_def gap_def QuoteJSONString_def quote_unit_def
  is_high_surrogate_def is_low_surrogate_def integer_runtime_def show_int_def show_nat.simps
  digit_unit_def js_def

lemmas representable_eval =
  reads_back_def read_int_def integer_runtime_def show_int_def show_nat.simps digit_unit_def
  is_number_char_def is_digit_def decimal_value_def own_property_order_def is_array_index_def
  js_def

text \<open>
  Claim C4, as stated, fails: a payload with an \<open>undefined\<close> member and a \<open>NaN\<close>
  number (the conversion result of the handler when the rate is missing) is rendered
  without the member and with \<open>null\<close> for the number, and parsing the text gives
  another payload.
\<close>

theorem formatAsJSON_undefined_counterexample:
  "formatAsJSON integer_runtime
     (Object [(js ''from'', String (js ''EUR'')), (js ''to'', String (js ''USD'')),
              (js ''amount'', Number (Num 100)), (js ''rate'', Undefined),
              (js ''result'', Number NaN), (js ''date'', String (js ''2024-01-02''))]) =
     Some (js ''{\<newline>  \"from\": \"EUR\",\<newline>  \"to\": \"USD\",\<newline>  \"amount\": 100,\<newline>  \"result\": null,\<newline>  \"date\": \"2024-01-02\"\<newline>}'') \<and>
   JSON_parse read_int
     (js ''{\<newline>  \"from\": \"EUR\",\<newline>  \"to\": \"USD\",\<newline>  \"amount\": 100,\<newline>  \"result\": null,\<newline>  \"date\": \"2024-01-02\"\<newline>}'') =
     Some (Object [(js ''from'', String (js ''EUR'')), (js ''to'', String (js ''USD'')),
                   (js ''amount'', Number (Num 100)), (js ''result'', Null),
                   (js ''date'', String (js ''2024-01-02''))]) \<and>
   Object [(js ''from'', String (js ''EUR'')), (js ''to'', String (js ''USD'')),
           (js ''amount'', Number (Num 100)), (js ''result'', Null),
           (js ''date'', String (js ''2024-01-02''))] \<noteq>
   Object [(js ''from'', String (js ''EUR'')), (js ''to'', String (js ''USD'')),
           (js ''amount'', Number (Num (100 :: int))), (js ''rate'', Undefined),
           (js ''result'', Number NaN), (js ''date'', String (js ''2024-01-02''))]"
proof -
  let ?P' = "Object [(js ''from'', String (js ''EUR'')), (js ''to'', String (js ''USD'')),
           (js ''amount'', Number (Num (100 :: int))), (js ''result'', Null),
           (js ''date'', String (js ''2024-01-02''))]"
  have r: "representable integer_runtime read_int ?P'"
    by (simp add: representable_eval)
  have t: "formatAsJSON integer_runtime ?P' =
     Some (js ''{\<newline>  \"from\": \"EUR\",\<newline>  \"to\": \"USD\",\<newline>  \"amount\": 100,\<newline>  \"result\": null,\<newline>  \"date\": \"2024-01-02\"\<newline>}'')"
    by (simp add: json_eval)
  have p: "JSON_parse read_int
     (js ''{\<newline>  \"from\": \"EUR\",\<newline>  \"to\": \"USD\",\<newline>  \"amount\": 100,\<newline>  \"result\": null,\<newline>  \"date\": \"2024-01-02\"\<newline>}'') = Some ?P'"
    using JSON_parse_printed [OF r] t by simp
  have f: "formatAsJSON integer_runtime
     (Object [(js ''from'', String (js ''EUR'')), (js ''to'', String (js ''USD'')),
              (js ''amount'', Number (Num 100)), (js ''rate'', Undefined),
              (js ''result'', Number NaN), (js ''date'', String (js ''2024-01-02''))]) =
     Some (js ''{\<newline>  \"from\": \"EUR\",\<newline>  \"to\": \"USD\",\<newline>  \"amount\": 100,\<newline>  \"result\": null,\<newline>  \"date\": \"2024-01-02\"\<newline>}'')"
    by (simp add: json_eval)
  show ?thesis
    using f p by simp
qed

text \<open>
  Claim C4, amended. For every payload that JSON can represent (no \<open>undefined\<close>, no
  \<open>NaN\<close> and no infinite number anywhere in it; every number printing to a number
  literal that reads back as the same number; every object with distinct keys in the
  order in which the engine enumerates them), the rendering is a JSON text whose parse is
  the payload itself, with its nested objects and arrays, the order of the keys and the
  numbers; the members of a top-level object are on lines of their own, indented by two
  spaces.
\<close>

theorem formatAsJSON_roundtrip:
  assumes "representable rt pn P"
  shows "\<exists>t. formatAsJSON rt P = Some t \<and> JSON_parse pn t = Some P \<and>
           (\<forall>kvs. P = Object kvs \<and> kvs \<noteq> [] \<longrightarrow>
              t = [0x7B, 0x0A] @ js ''  '' @
                  join (js '','' @ [0x0A] @ js ''  '')
                    (map (\<lambda>kv. QuoteJSONString (fst kv) @ js '': '' @ text_of rt (js ''  '') (snd kv)) kvs) @
                  [0x0A, 0x7D])"
proof (intro exI conjI allI impI)
  show "formatAsJSON rt P = Some (text_of rt [] P)" "JSON_parse pn (text_of rt [] P) = Some P"
    using JSON_parse_printed [OF assms] by simp_all
  fix kvs
  assume "P = Object kvs \<and> kvs \<noteq> []"
  then show "text_of rt [] P = [0x7B, 0x0A] @ js ''  '' @
                  join (js '','' @ [0x0A] @ js ''  '')
                    (map (\<lambda>kv. QuoteJSONString (fst kv) @ js '': '' @ text_of rt (js ''  '') (snd kv)) kvs) @
                  [0x0A, 0x7D]"
    using assms representable_members [of kvs rt pn gap]
    by (simp add: text_of_def [of rt "[]"] wrap_block_def gap_def)
qed


theorem formatAsJSON_roundtrip_witness:
  "representable integer_runtime read_int
     (Object [(js ''base'', String (js ''EUR'')),
             (js ''rates'', Object [(js ''2024-01-02'', Object [(js ''USD'', Number (Num 2))])]),
             (js ''notes'', Array [Null, Bool True, Number (Num (- 5)), String (js ''a b'')])]) \<and>
   formatAsJSON integer_runtime
     (Object [(js ''base'', String (js ''EUR'')),
             (js ''rates'', Object [(js ''2024-01-02'', Object [(js ''USD'', Number (Num 2))])]),
             (js ''notes'', Array [Null, Bool True, Number (Num (- 5)), String (js ''a b'')])]) =
     Some (js ''{\<newline>  \"base\": \"EUR\",\<newline>  \"rates\": {\<newline>    \"2024-01-02\": {\<newline>      \"USD\": 2\<newline>    }\<newline>  },\<newline>  \"notes\": [\<newline>    null,\<newline>    true,\<newline>    -5,\<newline>    \"a b\"\<newline>  ]\<newline>}'') \<and>
   JSON_parse read_int
     (js ''{\<newline>  \"base\": \"EUR\",\<newline>  \"rates\": {\<newline>    \"2024-01-02\": {\<newline>      \"USD\": 2\<newline>    }\<newline>  },\<newline>  \"notes\": [\<newline>    null,\<newline>    true,\<newline>    -5,\<newline>    \"a b\"\<newline>  ]\<newline>}'') =
     Some (Object [(js ''base'', String (js ''EUR'')),
             (js ''rates'', Object [(js ''2024-01-02'', Object [(js ''USD'', Number (Num 2))])]),
             (js ''notes'', Array [Null, Bool True, Number (Num (- 5)), String (js ''a b'')])])"
proof -
  have r: "representable integer_runtime read_int
     (Object [(js ''base'', String (js ''EUR'')),
             (js ''rates'', Object [(js ''2024-01-02'', Object [(js ''USD'', Number (Num 2))])]),
             (js ''notes'', Array [Null, Bool True, Number (Num (- 5)), String (js ''a b'')])])"
    by (simp add: representable_eval)
  have f: "formatAsJSON integer_runtime
     (Object [(js ''base'', String (js ''EUR'')),
             (js ''rates'', Object [(js ''2024-01-02'', Object [(js ''USD'', Number (Num 2))])]),
             (js ''notes'', Array [Null, Bool True, Number (Num (- 5)), String (js ''a b'')])]) =
     Some (js ''{\<newline>  \"base\": \"EUR\",\<newline>  \"rates\": {\<newline>    \"2024-01-02\": {\<newline>      \"USD\": 2\<newline>    }\<newline>  },\<newline>  \"notes\": [\<newline>    null,\<newline>    true,\<newline>    -5,\<newline>    \"a b\"\<newline>  ]\<newline>}'')"
    by (simp add: json_eval)
  obtain t where "formatAsJSON integer_runtime
     (Object [(js ''base'', String (js ''EUR'')),
             (js ''rates'', Object [(js ''2024-01-02'', Object [(js ''USD'', Number (Num 2))])]),
             (js ''notes'', Array [Null, Bool True, Number (Num (- 5)), String (js ''a b'')])]) = Some t"
    and "JSON_parse read_int t = Some
     (Object [(js ''base'', String (js ''EUR'')),
             (js ''rates'', Object [(js ''2024-01-02'', Object [(js ''USD'', Number (Num 2))])]),
             (js ''notes'', Array [Null, Bool True, Number (Num (- 5)), String (js ''a b'')])])"
    using formatAsJSON_roundtrip [OF r] by blast
  with r f show ?thesis by simp
qed



section \<open>Properties of the time-series tool in the JSON format\<close>

lemma formatAsJSON_String: "formatAsJSON rt (String str) = Some (QuoteJSONString str)"
  by (simp add: formatAsJSON_def)

lemma JSON_parse_QuoteJSONString: "JSON_parse pn (QuoteJSONString str) = Some (String str)"
proof -
  have "representable rt pn (String str)" for rt :: "'a runtime"
    by simp
  then show ?thesis
    using JSON_parse_printed(2) [of _ pn "String str"] by (simp add: text_of_def)
qed

lemma get_time_series_json_text:
  assumes "GetTimeSeriesSchema args = []"
    and "\<not> time_ge (Date_parse rt (t_start_date args)) (Date_parse rt (t_end_date args))"
    and "format_or_default (t_response_format args) = JSON"
    and "http (api_request (js ''/'' @ t_start_date args @ js ''..'' @ t_end_date args)
                      (build_params rt (t_base args) (t_symbols args))) = Data data"
    and "formatAsJSON rt data = Some once"
  shows "fst (CallTool rt now http (frankfurter_get_time_series args)) =
           Responds \<lparr>content_text = Some (fst (truncateIfNeeded (QuoteJSONString once) JSON)),
                      isError = False\<rparr>"
  using assms
  by (simp add: CallTool_def get_time_series_def makeApiRequest_def Let_def formatResponse_def
      formatAsJSON_String success_def)

text \<open>
  A string literal that is cut anywhere before its closing quotation mark and continued
  with a line feed is not read: the cut leaves whole escapes, or the beginning of one,
  and neither a character of the literal nor the rest of an escape can be a line feed.
\<close>

lemma consed_None: "consed c None = None"
  by (simp add: consed_def)

lemma hex_value_newline: "hex_value 0x0A = None"
  by (simp add: hex_value_def)

lemma unescape_newline: "unescape 0x0A = None"
  by (simp add: unescape_def)

lemma prefix_lengths:
  fixes n :: nat
  obtains "n = 0" | "n = 1" | "n = 2" | "n = 3" | "n = 4" | "n = 5" | "6 \<le> n"
  by linarith

lemma parse_chars_cut_UnicodeEscape:
  assumes "\<And>k. parse_chars (take k body @ 0x0A # rest) = None"
  shows "parse_chars (take n (UnicodeEscape c @ body) @ 0x0A # rest) = None"
proof (cases n rule: prefix_lengths)
  case 7
  have "length (UnicodeEscape c) = 6"
    by (simp add: UnicodeEscape_def)
  with 7 have "take n (UnicodeEscape c @ body) = UnicodeEscape c @ take (n - 6) body"
    by simp
  then show ?thesis
    using assms [of "n - 6"] by (simp add: parse_chars_UnicodeEscape consed_None del: parse_chars.simps)
qed (simp_all add: UnicodeEscape_def hex4_def hex_value_newline unescape_newline
       split: list.splits option.splits)

lemma parse_chars_cut_quote_unit:
  assumes "\<And>k. parse_chars (take k body @ 0x0A # rest) = None"
  shows "parse_chars (take n (quote_unit c @ body) @ 0x0A # rest) = None"
proof (cases "c = 0x08 \<or> c = 0x09 \<or> c = 0x0A \<or> c = 0x0C \<or> c = 0x0D \<or> c = 0x22 \<or> c = 0x5C")
  case True
  then obtain e where e: "quote_unit c = [0x5C, e]"
    by (auto simp add: quote_unit_def)
  consider "n = 0" | "n = 1" | "2 \<le> n" by linarith
  then show ?thesis
  proof cases
    case 1
    then show ?thesis by simp
  next
    case 2
    then show ?thesis by (simp add: e unescape_newline)
  next
    case 3
    have "length (quote_unit c) = 2"
      by (simp add: e)
    with 3 have "take n (quote_unit c @ body) = quote_unit c @ take (n - 2) body"
      by simp
    then show ?thesis
      using assms [of "n - 2"] by (simp add: parse_chars_quote_unit consed_None del: parse_chars.simps)
  qed
next
  case False
  show ?thesis
  proof (cases "c < 0x20")
    case True
    with False have "quote_unit c = UnicodeEscape c"
      by (simp add: quote_unit_def)
    then show ?thesis
      using parse_chars_cut_UnicodeEscape [OF assms] by simp
  next
    case plain: False
    with False have e: "quote_unit c = [c]"
      by (simp add: quote_unit_def)
    show ?thesis
    proof (cases n)
      case 0
      then show ?thesis by simp
    next
      case (Suc k)
      then have "take n (quote_unit c @ body) = quote_unit c @ take k body"
        by (simp add: e)
      then show ?thesis
        using assms [of k] by (simp add: parse_chars_quote_unit consed_None del: parse_chars.simps)
    qed
  qed
qed

lemma parse_chars_cut:
  "parse_chars (take n (quote_units s) @ 0x0A # rest) = None"
proof (induction s arbitrary: n rule: quote_units.induct)
  case 1
  show ?case by simp
next
  case (2 c)
  have u: "parse_chars (take n (UnicodeEscape c @ []) @ 0x0A # rest) = None"
    by (rule parse_chars_cut_UnicodeEscape) simp
  have q: "parse_chars (take n (quote_unit c @ []) @ 0x0A # rest) = None"
    by (rule parse_chars_cut_quote_unit) simp
  show ?case
    using u q by (simp del: parse_chars.simps)
next
  case (3 c d cs)
  note IH = this
  show ?case
  proof (cases "is_high_surrogate c \<and> is_low_surrogate d")
    case True
    then have q: "quote_units (c # d # cs) = c # d # quote_units cs"
      by simp
    consider "n = 0" | "n = 1" | "2 \<le> n" by linarith
    then show ?thesis
    proof cases
      case 1
      then show ?thesis by simp
    next
      case 2
      then have "take n (quote_units (c # d # cs)) @ 0x0A # rest = c # 0x0A # rest"
        unfolding q by simp
      moreover have "parse_chars (c # 0x0A # rest) = consed c (parse_chars (0x0A # rest))"
        using True by (simp add: parse_chars_surrogate del: parse_chars.simps)
      moreover have "parse_chars (0x0A # rest) = None"
        by simp
      ultimately show ?thesis
        by (simp add: consed_None del: parse_chars.simps)
    next
      case 3
      then have "take n (quote_units (c # d # cs)) @ 0x0A # rest =
          c # d # take (n - 2) (quote_units cs) @ 0x0A # rest"
        unfolding q by (simp add: take_Cons' numeral_2_eq_2)
      then show ?thesis
        using True IH(1) [OF True, of "n - 2"]
        by (simp add: parse_chars_surrogate consed_None del: parse_chars.simps)
    qed
  next
    case False
    have body: "parse_chars (take k (quote_units (d # cs)) @ 0x0A # rest) = None" for k
      using IH(2) [OF False] IH(3) [OF False] by (cases "is_high_surrogate c \<or> is_low_surrogate c") simp_all
    show ?thesis
    proof (cases "is_high_surrogate c \<or> is_low_surrogate c")
      case True
      with False have "quote_units (c # d # cs) = UnicodeEscape c @ quote_units (d # cs)"
        by auto
      then show ?thesis
        using parse_chars_cut_UnicodeEscape [of "quote_units (d # cs)" rest n c, OF body]
        by (simp del: parse_chars.simps quote_units.simps)
    next
      case plain: False
      with False have "quote_units (c # d # cs) = quote_unit c @ quote_units (d # cs)"
        by auto
      then show ?thesis
        using parse_chars_cut_quote_unit [of "quote_units (d # cs)" rest n c, OF body]
        by (simp del: parse_chars.simps quote_units.simps)
    qed
  qed
qed

lemma JSON_parse_cut:
  assumes "0 < n" and "n < length (QuoteJSONString s)"
  shows "JSON_parse pn (take n (QuoteJSONString s) @ 0x0A # rest) = None"
proof -
  obtain k where k: "n = Suc k" using assms(1) by (cases n) auto
  then have "k \<le> length (quote_units s)"
    using assms(2) by (simp add: QuoteJSONString_def)
  then have "take n (QuoteJSONString s) = 0x22 # take k (quote_units s)"
    by (simp add: QuoteJSONString_def k)
  then have "parse_value pn (take n (QuoteJSONString s) @ 0x0A # rest) = None"
    using parse_chars_cut [of k s rest]
    by (subst parse_value.simps) (simp add: skip_ws_def is_ws_def del: parse_chars.simps)
  then show ?thesis
    by (simp add: JSON_parse_def)
qed

lemma truncationMessage_newline: "\<exists>rest. truncationMessage fmt = 0x0A # rest"
  by (simp add: truncationMessage_def js_def)

text \<open>
  Claim C9, amended. For a call of the time-series tool with valid arguments that passes
  the date check, the JSON format and an upstream payload: the payload is rendered by
  \<open>formatAsJSON\<close>, the rendered string is the data of \<open>formatResponse\<close>, which renders
  it again as a JSON string literal and truncates the result; the text of the response is
  the truncation of the twice-rendered text. When the twice-rendered text has at most
  25000 code units, it is the text of the response, and parsing it once gives a string
  (the once-rendered text), not the payload. When it is longer, the text of the response
  is its first 25000 code units followed by the notice of the JSON format, and that text
  is no JSON text: parsing it fails.
\<close>

theorem get_time_series_json_serialized_twice:
  assumes valid: "GetTimeSeriesSchema args = []"
    and range: "\<not> time_ge (Date_parse rt (t_start_date args)) (Date_parse rt (t_end_date args))"
    and format: "format_or_default (t_response_format args) = JSON"
    and upstream: "http (api_request (js ''/'' @ t_start_date args @ js ''..'' @ t_end_date args)
                      (build_params rt (t_base args) (t_symbols args))) = Data data"
    and once: "formatAsJSON rt data = Some once"
  shows "formatAsJSON rt (String once) = Some (QuoteJSONString once) \<and>
         fst (CallTool rt now http (frankfurter_get_time_series args)) =
           Responds \<lparr>content_text = Some (fst (truncateIfNeeded (QuoteJSONString once) JSON)),
                      isError = False\<rparr> \<and>
         (length (QuoteJSONString once) \<le> CHARACTER_LIMIT \<longrightarrow>
            fst (CallTool rt now http (frankfurter_get_time_series args)) =
              Responds \<lparr>content_text = Some (QuoteJSONString once), isError = False\<rparr> \<and>
            JSON_parse pn (QuoteJSONString once) = Some (String once)) \<and>
         (length (QuoteJSONString once) > CHARACTER_LIMIT \<longrightarrow>
            fst (CallTool rt now http (frankfurter_get_time_series args)) =
              Responds \<lparr>content_text = Some (take 25000 (QuoteJSONString once) @
                           js ''\<newline>\<newline>[TRUNCATED: Response exceeded character limit]''),
                         isError = False\<rparr> \<and>
            JSON_parse pn (take 25000 (QuoteJSONString once) @
              js ''\<newline>\<newline>[TRUNCATED: Response exceeded character limit]'') = None)"
proof -
  have response: "fst (CallTool rt now http (frankfurter_get_time_series args)) =
           Responds \<lparr>content_text = Some (fst (truncateIfNeeded (QuoteJSONString once) JSON)),
                      isError = False\<rparr>"
    using assms by (rule get_time_series_json_text)
  have notice: "js ''\<newline>\<newline>[TRUNCATED: Response exceeded character limit]'' =
      0x0A # js ''\<newline>[TRUNCATED: Response exceeded character limit]''"
    by (simp add: js_def)
  have unparsed: "JSON_parse pn (take 25000 (QuoteJSONString once) @
      js ''\<newline>\<newline>[TRUNCATED: Response exceeded character limit]'') = None"
    if "length (QuoteJSONString once) > CHARACTER_LIMIT"
    unfolding notice using that by (intro JSON_parse_cut) (simp_all add: CHARACTER_LIMIT_def)
  show ?thesis
    using response unparsed
    by (simp add: formatAsJSON_String JSON_parse_QuoteJSONString truncateIfNeeded_def
        truncationMessage_def CHARACTER_LIMIT_def)
qed

lemma quote_units_Cons:
  "\<not> is_high_surrogate c \<Longrightarrow> \<not> is_low_surrogate c \<Longrightarrow>
   quote_units (c # cs) = quote_unit c @ quote_units cs"
  by (cases cs) simp_all

lemmas quote_eval =
  QuoteJSONString_def quote_units_Cons quote_unit_def is_high_surrogate_def is_low_surrogate_def

lemma quote_units_replicate:
  "quote_units (replicate n 0x61 @ ys) = replicate n 0x61 @ quote_units ys"
  by (induction n) (simp_all add: quote_eval del: quote_units.simps(2,3))

lemma parse_chars_replicate_newline:
  "parse_chars (replicate n 0x61 @ 0x0A # r) = None"
  by (induction n) (simp_all add: consed_def)

lemma example_range_valid:
  "GetTimeSeriesSchema \<lparr>t_start_date = js ''2024-01-01'', t_end_date = js ''2024-01-03'', t_base = None, t_symbols = None, t_response_format = Some JSON\<rparr> = []"
  by (simp add: GetTimeSeriesSchema_def date_issues_def optional_code_issues_def
      symbols_issues_def js_def is_digit_def)

lemma example_range_dates:
  "\<not> time_ge (Date_parse integer_runtime (t_start_date \<lparr>t_start_date = js ''2024-01-01'', t_end_date = js ''2024-01-03'', t_base = None, t_symbols = None, t_response_format = Some JSON\<rparr>))
              (Date_parse integer_runtime (t_end_date \<lparr>t_start_date = js ''2024-01-01'', t_end_date = js ''2024-01-03'', t_base = None, t_symbols = None, t_response_format = Some JSON\<rparr>))"
  by (simp add: date_eval)

lemma example_range_format:
  "format_or_default (t_response_format \<lparr>t_start_date = js ''2024-01-01'', t_end_date = js ''2024-01-03'', t_base = None, t_symbols = None, t_response_format = Some JSON\<rparr>) = JSON"
  by (simp add: format_or_default_def)

lemma large_payload_once:
  "formatAsJSON integer_runtime (Object [(js ''base'', String (replicate 30000 0x61))]) =
     Some ([0x7B, 0x0A] @ js ''  '' @ [0x22] @ js ''base'' @ [0x22] @ js '': '' @ [0x22] @ replicate 30000 0x61 @ [0x22, 0x0A, 0x7D])"
  using quote_units_replicate [of 30000 "[]"]
  by (simp add: formatAsJSON_def wrap_block_def gap_def QuoteJSONString_def js_def quote_eval
           del: quote_units.simps(2,3))

lemma large_payload_twice:
  "QuoteJSONString ([0x7B, 0x0A] @ js ''  '' @ [0x22] @ js ''base'' @ [0x22] @ js '': '' @ [0x22] @ replicate 30000 0x61 @ [0x22, 0x0A, 0x7D]) =
     [0x22, 0x7B, 0x5C, 0x6E] @ js ''  '' @ [0x5C, 0x22] @ js ''base'' @ [0x5C, 0x22] @ js '': '' @ [0x5C, 0x22] @ replicate 30000 0x61 @ [0x5C, 0x22, 0x5C, 0x6E, 0x7D, 0x22]"
  using quote_units_replicate [of 30000 "[0x22, 0x0A, 0x7D]"]
  by (simp add: js_def quote_eval del: quote_units.simps(2,3))

lemma large_payload_cut:
  "take 25000 ([0x22, 0x7B, 0x5C, 0x6E] @ js ''  '' @ [0x5C, 0x22] @ js ''base'' @ [0x5C, 0x22] @ js '': '' @ [0x5C, 0x22] @ replicate 30000 0x61 @ [0x5C, 0x22, 0x5C, 0x6E, 0x7D, 0x22]) =
     [0x22, 0x7B, 0x5C, 0x6E] @ js ''  '' @ [0x5C, 0x22] @ js ''base'' @ [0x5C, 0x22] @ js '': '' @ [0x5C, 0x22] @ replicate 24982 0x61"
  by (simp add: js_def)

theorem get_time_series_json_serialized_twice_witness:
  "GetTimeSeriesSchema \<lparr>t_start_date = js ''2024-01-01'', t_end_date = js ''2024-01-03'', t_base = None, t_symbols = None, t_response_format = Some JSON\<rparr> = [] \<and>
   \<not> time_ge (Date_parse integer_runtime (js ''2024-01-01'')) (Date_parse integer_runtime (js ''2024-01-03'')) \<and>
   formatAsJSON integer_runtime (Object [(js ''base'', String (js ''EUR''))]) = Some (js ''{\<newline>  \"base\": \"EUR\"\<newline>}'') \<and>
   length ([0x22, 0x7B, 0x5C, 0x6E] @ js ''  '' @ [0x5C, 0x22] @ js ''base'' @ [0x5C, 0x22] @ js '': '' @ [0x5C, 0x22] @ js ''EUR'' @ [0x5C, 0x22, 0x5C, 0x6E, 0x7D, 0x22]) \<le> CHARACTER_LIMIT \<and>
   fst (CallTool integer_runtime 0 (upstream_data (Object [(js ''base'', String (js ''EUR''))]))
       (frankfurter_get_time_series \<lparr>t_start_date = js ''2024-01-01'', t_end_date = js ''2024-01-03'', t_base = None, t_symbols = None, t_response_format = Some JSON\<rparr>)) =
     Responds \<lparr>content_text = Some ([0x22, 0x7B, 0x5C, 0x6E] @ js ''  '' @ [0x5C, 0x22] @ js ''base'' @ [0x5C, 0x22] @ js '': '' @ [0x5C, 0x22] @ js ''EUR'' @ [0x5C, 0x22, 0x5C, 0x6E, 0x7D, 0x22]),
                isError = False\<rparr> \<and>
   JSON_parse read_int ([0x22, 0x7B, 0x5C, 0x6E] @ js ''  '' @ [0x5C, 0x22] @ js ''base'' @ [0x5C, 0x22] @ js '': '' @ [0x5C, 0x22] @ js ''EUR'' @ [0x5C, 0x22, 0x5C, 0x6E, 0x7D, 0x22]) =
     Some (String (js ''{\<newline>  \"base\": \"EUR\"\<newline>}'')) \<and>
   formatAsJSON integer_runtime (Object [(js ''base'', String (replicate 30000 0x61))]) =
     Some ([0x7B, 0x0A] @ js ''  '' @ [0x22] @ js ''base'' @ [0x22] @ js '': '' @ [0x22] @ replicate 30000 0x61 @ [0x22, 0x0A, 0x7D]) \<and>
   length ([0x22, 0x7B, 0x5C, 0x6E] @ js ''  '' @ [0x5C, 0x22] @ js ''base'' @ [0x5C, 0x22] @ js '': '' @ [0x5C, 0x22] @ replicate 30000 0x61 @ [0x5C, 0x22, 0x5C, 0x6E, 0x7D, 0x22]) > CHARACTER_LIMIT \<and>
   fst (CallTool integer_runtime 0 (upstream_data (Object [(js ''base'', String (replicate 30000 0x61))]))
       (frankfurter_get_time_series \<lparr>t_start_date = js ''2024-01-01'', t_end_date = js ''2024-01-03'', t_base = None, t_symbols = None, t_response_format = Some JSON\<rparr>)) =
     Responds \<lparr>content_text = Some ([0x22, 0x7B, 0x5C, 0x6E] @ js ''  '' @ [0x5C, 0x22] @ js ''base'' @ [0x5C, 0x22] @ js '': '' @ [0x5C, 0x22] @ replicate 24982 0x61 @
                  js ''\<newline>\<newline>[TRUNCATED: Response exceeded character limit]''),
                isError = False\<rparr> \<and>
   JSON_parse read_int ([0x22, 0x7B, 0x5C, 0x6E] @ js ''  '' @ [0x5C, 0x22] @ js ''base'' @ [0x5C, 0x22] @ js '': '' @ [0x5C, 0x22] @ replicate 24982 0x61 @
     js ''\<newline>\<newline>[TRUNCATED: Response exceeded character limit]'') = None"
proof -
  have range: "\<not> time_ge (Date_parse integer_runtime (js ''2024-01-01'')) (Date_parse integer_runtime (js ''2024-01-03''))"
    using example_range_dates by simp
  have once: "formatAsJSON integer_runtime (Object [(js ''base'', String (js ''EUR''))]) = Some (js ''{\<newline>  \"base\": \"EUR\"\<newline>}'')"
    by (simp add: json_eval)
  have twice: "QuoteJSONString (js ''{\<newline>  \"base\": \"EUR\"\<newline>}'') =
      [0x22, 0x7B, 0x5C, 0x6E] @ js ''  '' @ [0x5C, 0x22] @ js ''base'' @ [0x5C, 0x22] @ js '': '' @ [0x5C, 0x22] @ js ''EUR'' @ [0x5C, 0x22, 0x5C, 0x6E, 0x7D, 0x22]"
    by (simp add: js_def quote_eval)
  have short: "length ([0x22, 0x7B, 0x5C, 0x6E] @ js ''  '' @ [0x5C, 0x22] @ js ''base'' @ [0x5C, 0x22] @ js '': '' @ [0x5C, 0x22] @ js ''EUR'' @ [0x5C, 0x22, 0x5C, 0x6E, 0x7D, 0x22]) \<le> CHARACTER_LIMIT"
    by (simp add: CHARACTER_LIMIT_def)
  have long: "length ([0x22, 0x7B, 0x5C, 0x6E] @ js ''  '' @ [0x5C, 0x22] @ js ''base'' @ [0x5C, 0x22] @ js '': '' @ [0x5C, 0x22] @ replicate 30000 0x61 @ [0x5C, 0x22, 0x5C, 0x6E, 0x7D, 0x22]) > CHARACTER_LIMIT"
    by (simp add: CHARACTER_LIMIT_def)
  have upstream: "upstream_data d (api_request (js ''/'' @ t_start_date \<lparr>t_start_date = js ''2024-01-01'', t_end_date = js ''2024-01-03'', t_base = None, t_symbols = None, t_response_format = Some JSON\<rparr> @ js ''..'' @
                    t_end_date \<lparr>t_start_date = js ''2024-01-01'', t_end_date = js ''2024-01-03'', t_base = None, t_symbols = None, t_response_format = Some JSON\<rparr>)
         (build_params integer_runtime (t_base \<lparr>t_start_date = js ''2024-01-01'', t_end_date = js ''2024-01-03'', t_base = None, t_symbols = None, t_response_format = Some JSON\<rparr>)
            (t_symbols \<lparr>t_start_date = js ''2024-01-01'', t_end_date = js ''2024-01-03'', t_base = None, t_symbols = None, t_response_format = Some JSON\<rparr>))) = Data d" for d :: "int jsvalue"
    by (simp add: upstream_data_def)
  note t = get_time_series_json_serialized_twice
      [where rt = integer_runtime and pn = read_int and now = 0
         and args = "\<lparr>t_start_date = js ''2024-01-01'', t_end_date = js ''2024-01-03'', t_base = None, t_symbols = None, t_response_format = Some JSON\<rparr>"
         and http = "upstream_data (Object [(js ''base'', String (js ''EUR''))])"
         and data = "Object [(js ''base'', String (js ''EUR''))]"
         and once = "js ''{\<newline>  \"base\": \"EUR\"\<newline>}''",
       OF example_range_valid example_range_dates example_range_format upstream once, unfolded twice]
  note u = get_time_series_json_serialized_twice
      [where rt = integer_runtime and pn = read_int and now = 0
         and args = "\<lparr>t_start_date = js ''2024-01-01'', t_end_date = js ''2024-01-03'', t_base = None, t_symbols = None, t_response_format = Some JSON\<rparr>"
         and http = "upstream_data (Object [(js ''base'', String (replicate 30000 0x61))])"
         and data = "Object [(js ''base'', String (replicate 30000 0x61))]"
         and once = "[0x7B, 0x0A] @ js ''  '' @ [0x22] @ js ''base'' @ [0x22] @ js '': '' @ [0x22] @ replicate 30000 0x61 @ [0x22, 0x0A, 0x7D]",
       OF example_range_valid example_range_dates example_range_format upstream large_payload_once,
       unfolded large_payload_twice large_payload_cut append_assoc]
  from t short have small:
    "fst (CallTool integer_runtime 0 (upstream_data (Object [(js ''base'', String (js ''EUR''))]))
       (frankfurter_get_time_series \<lparr>t_start_date = js ''2024-01-01'', t_end_date = js ''2024-01-03'', t_base = None, t_symbols = None, t_response_format = Some JSON\<rparr>)) =
     Responds \<lparr>content_text = Some ([0x22, 0x7B, 0x5C, 0x6E] @ js ''  '' @ [0x5C, 0x22] @ js ''base'' @ [0x5C, 0x22] @ js '': '' @ [0x5C, 0x22] @ js ''EUR'' @ [0x5C, 0x22, 0x5C, 0x6E, 0x7D, 0x22]),
                isError = False\<rparr>"
    "JSON_parse read_int ([0x22, 0x7B, 0x5C, 0x6E] @ js ''  '' @ [0x5C, 0x22] @ js ''base'' @ [0x5C, 0x22] @ js '': '' @ [0x5C, 0x22] @ js ''EUR'' @ [0x5C, 0x22, 0x5C, 0x6E, 0x7D, 0x22]) =
     Some (String (js ''{\<newline>  \"base\": \"EUR\"\<newline>}''))"
    by blast+
  from u long have large:
    "fst (CallTool integer_runtime 0 (upstream_data (Object [(js ''base'', String (replicate 30000 0x61))]))
       (frankfurter_get_time_series \<lparr>t_start_date = js ''2024-01-01'', t_end_date = js ''2024-01-03'', t_base = None, t_symbols = None, t_response_format = Some JSON\<rparr>)) =
     Responds \<lparr>content_text = Some ([0x22, 0x7B, 0x5C, 0x6E] @ js ''  '' @ [0x5C, 0x22] @ js ''base'' @ [0x5C, 0x22] @ js '': '' @ [0x5C, 0x22] @ replicate 24982 0x61 @
                  js ''\<newline>\<newline>[TRUNCATED: Response exceeded character limit]''),
                isError = False\<rparr>"
    "JSON_parse read_int ([0x22, 0x7B, 0x5C, 0x6E] @ js ''  '' @ [0x5C, 0x22] @ js ''base'' @ [0x5C, 0x22] @ js '': '' @ [0x5C, 0x22] @ replicate 24982 0x61 @
     js ''\<newline>\<newline>[TRUNCATED: Response exceeded character limit]'') = None"
    by blast+
  from example_range_valid range once short small large_payload_once long large show ?thesis
    by blast
qed

text \<open>
  Claim C9, as stated, fails for a large payload: the twice-rendered text is longer than
  the limit, the text of the response is its first 25000 code units and the notice, and
  that text is not the twice-rendered text and is no JSON text.
\<close>

theorem get_time_series_json_truncated_counterexample:
  "formatAsJSON integer_runtime (Object [(js ''base'', String (replicate 30000 0x61))]) =
     Some ([0x7B, 0x0A] @ js ''  '' @ [0x22] @ js ''base'' @ [0x22] @ js '': '' @ [0x22] @ replicate 30000 0x61 @ [0x22, 0x0A, 0x7D]) \<and>
   formatAsJSON integer_runtime (String ([0x7B, 0x0A] @ js ''  '' @ [0x22] @ js ''base'' @ [0x22] @ js '': '' @ [0x22] @ replicate 30000 0x61 @ [0x22, 0x0A, 0x7D])) =
     Some ([0x22, 0x7B, 0x5C, 0x6E] @ js ''  '' @ [0x5C, 0x22] @ js ''base'' @ [0x5C, 0x22] @ js '': '' @ [0x5C, 0x22] @ replicate 30000 0x61 @ [0x5C, 0x22, 0x5C, 0x6E, 0x7D, 0x22]) \<and>
   fst (CallTool integer_runtime 0 (upstream_data (Object [(js ''base'', String (replicate 30000 0x61))]))
     (frankfurter_get_time_series \<lparr>t_start_date = js ''2024-01-01'', t_end_date = js ''2024-01-03'', t_base = None, t_symbols = None, t_response_format = Some JSON\<rparr>)) =
     Responds \<lparr>content_text = Some ([0x22, 0x7B, 0x5C, 0x6E] @ js ''  '' @ [0x5C, 0x22] @ js ''base'' @ [0x5C, 0x22] @ js '': '' @ [0x5C, 0x22] @ replicate 24982 0x61 @
      js ''\<newline>\<newline>[TRUNCATED: Response exceeded character limit]''),
                isError = False\<rparr> \<and>
   [0x22, 0x7B, 0x5C, 0x6E] @ js ''  '' @ [0x5C, 0x22] @ js ''base'' @ [0x5C, 0x22] @ js '': '' @ [0x5C, 0x22] @ replicate 24982 0x61 @
      js ''\<newline>\<newline>[TRUNCATED: Response exceeded character limit]'' \<noteq>
   [0x22, 0x7B, 0x5C, 0x6E] @ js ''  '' @ [0x5C, 0x22] @ js ''base'' @ [0x5C, 0x22] @ js '': '' @ [0x5C, 0x22] @ replicate 30000 0x61 @ [0x5C, 0x22, 0x5C, 0x6E, 0x7D, 0x22] \<and>
   JSON_parse read_int ([0x22, 0x7B, 0x5C, 0x6E] @ js ''  '' @ [0x5C, 0x22] @ js ''base'' @ [0x5C, 0x22] @ js '': '' @ [0x5C, 0x22] @ replicate 24982 0x61 @
      js ''\<newline>\<newline>[TRUNCATED: Response exceeded character limit]'') = None"
proof -
  have upstream: "upstream_data (Object [(js ''base'', String (replicate 30000 0x61))])
      (api_request (js ''/'' @ t_start_date \<lparr>t_start_date = js ''2024-01-01'', t_end_date = js ''2024-01-03'', t_base = None, t_symbols = None, t_response_format = Some JSON\<rparr> @ js ''..'' @
                    t_end_date \<lparr>t_start_date = js ''2024-01-01'', t_end_date = js ''2024-01-03'', t_base = None, t_symbols = None, t_response_format = Some JSON\<rparr>)
         (build_params integer_runtime (t_base \<lparr>t_start_date = js ''2024-01-01'', t_end_date = js ''2024-01-03'', t_base = None, t_symbols = None, t_response_format = Some JSON\<rparr>)
            (t_symbols \<lparr>t_start_date = js ''2024-01-01'', t_end_date = js ''2024-01-03'', t_base = None, t_symbols = None, t_response_format = Some JSON\<rparr>))) = Data (Object [(js ''base'', String (replicate 30000 0x61))])"
    by (simp add: upstream_data_def)
  have cut: "fst (truncateIfNeeded ([0x22, 0x7B, 0x5C, 0x6E] @ js ''  '' @ [0x5C, 0x22] @ js ''base'' @ [0x5C, 0x22] @ js '': '' @ [0x5C, 0x22] @ replicate 30000 0x61 @ [0x5C, 0x22, 0x5C, 0x6E, 0x7D, 0x22]) JSON) =
     [0x22, 0x7B, 0x5C, 0x6E] @ js ''  '' @ [0x5C, 0x22] @ js ''base'' @ [0x5C, 0x22] @ js '': '' @ [0x5C, 0x22] @ replicate 24982 0x61 @
      js ''\<newline>\<newline>[TRUNCATED: Response exceeded character limit]''"
    by (simp add: truncateIfNeeded_def CHARACTER_LIMIT_def truncationMessage_def js_def)
  have call: "fst (CallTool integer_runtime 0 (upstream_data (Object [(js ''base'', String (replicate 30000 0x61))]))
     (frankfurter_get_time_series \<lparr>t_start_date = js ''2024-01-01'', t_end_date = js ''2024-01-03'', t_base = None, t_symbols = None, t_response_format = Some JSON\<rparr>)) =
     Responds \<lparr>content_text = Some ([0x22, 0x7B, 0x5C, 0x6E] @ js ''  '' @ [0x5C, 0x22] @ js ''base'' @ [0x5C, 0x22] @ js '': '' @ [0x5C, 0x22] @ replicate 24982 0x61 @
      js ''\<newline>\<newline>[TRUNCATED: Response exceeded character limit]''),
                isError = False\<rparr>"
    using get_time_series_json_text
      [where rt = integer_runtime and now = 0
         and args = "\<lparr>t_start_date = js ''2024-01-01'', t_end_date = js ''2024-01-03'', t_base = None, t_symbols = None, t_response_format = Some JSON\<rparr>"
         and http = "upstream_data (Object [(js ''base'', String (replicate 30000 0x61))])"
         and data = "Object [(js ''base'', String (replicate 30000 0x61))]"
         and once = "[0x7B, 0x0A] @ js ''  '' @ [0x22] @ js ''base'' @ [0x22] @ js '': '' @ [0x22] @ replicate 30000 0x61 @ [0x22, 0x0A, 0x7D]",
       OF example_range_valid example_range_dates example_range_format upstream large_payload_once]
    unfolding large_payload_twice cut .
  have "length ([0x22, 0x7B, 0x5C, 0x6E] @ js ''  '' @ [0x5C, 0x22] @ js ''base'' @ [0x5C, 0x22] @ js '': '' @ [0x5C, 0x22] @ replicate 24982 0x61 @
      js ''\<newline>\<newline>[TRUNCATED: Response exceeded character limit]'') \<noteq>
        length ([0x22, 0x7B, 0x5C, 0x6E] @ js ''  '' @ [0x5C, 0x22] @ js ''base'' @ [0x5C, 0x22] @ js '': '' @ [0x5C, 0x22] @ replicate 30000 0x61 @ [0x5C, 0x22, 0x5C, 0x6E, 0x7D, 0x22])"
    by simp
  then have differ: "[0x22, 0x7B, 0x5C, 0x6E] @ js ''  '' @ [0x5C, 0x22] @ js ''base'' @ [0x5C, 0x22] @ js '': '' @ [0x5C, 0x22] @ replicate 24982 0x61 @
      js ''\<newline>\<newline>[TRUNCATED: Response exceeded character limit]'' \<noteq>
   [0x22, 0x7B, 0x5C, 0x6E] @ js ''  '' @ [0x5C, 0x22] @ js ''base'' @ [0x5C, 0x22] @ js '': '' @ [0x5C, 0x22] @ replicate 30000 0x61 @ [0x5C, 0x22, 0x5C, 0x6E, 0x7D, 0x22]"
    by metis
  have chars: "parse_chars (tl ([0x22, 0x7B, 0x5C, 0x6E] @ js ''  '' @ [0x5C, 0x22] @ js ''base'' @ [0x5C, 0x22] @ js '': '' @ [0x5C, 0x22] @ replicate 24982 0x61 @
      js ''\<newline>\<newline>[TRUNCATED: Response exceeded character limit]'')) = None"
    using parse_chars_replicate_newline [of 24982 "js ''\<newline>[TRUNCATED: Response exceeded character limit]''"]
    by (simp add: js_def consed_def unescape_def)
  have "parse_value read_int ([0x22, 0x7B, 0x5C, 0x6E] @ js ''  '' @ [0x5C, 0x22] @ js ''base'' @ [0x5C, 0x22] @ js '': '' @ [0x5C, 0x22] @ replicate 24982 0x61 @
      js ''\<newline>\<newline>[TRUNCATED: Response exceeded character limit]'') = None"
    using chars
    by (subst parse_value.simps) (simp add: skip_ws_def is_ws_def js_def)
  then have unparsed: "JSON_parse read_int ([0x22, 0x7B, 0x5C, 0x6E] @ js ''  '' @ [0x5C, 0x22] @ js ''base'' @ [0x5C, 0x22] @ js '': '' @ [0x5C, 0x22] @ replicate 24982 0x61 @
      js ''\<newline>\<newline>[TRUNCATED: Response exceeded character limit]'') = None"
    by (simp add: JSON_parse_def)
  show ?thesis
    using large_payload_once large_payload_twice call differ unparsed by (simp add: formatAsJSON_String)
qed

end
